theory Spec2Isabelle
  imports Main "HOL-Library.Char_ord" "HOL-Library.List_Lexorder"
begin

section \<open>Configuration\<close>

text \<open>The constants of class \<open>Config\<close>.\<close>

definition NCBI_API_BASE :: string where
  "NCBI_API_BASE = ''https://eutils.ncbi.nlm.nih.gov/entrez/eutils''"

definition ARTICLE_VIEW_BASE :: string where
  "ARTICLE_VIEW_BASE = ''https://pubmed.ncbi.nlm.nih.gov''"

definition REQUEST_TIMEOUT :: int where
  "REQUEST_TIMEOUT = 30"

definition RETRY_ATTEMPTS :: int where
  "RETRY_ATTEMPTS = 3"

definition RETRY_DELAY :: nat where
  "RETRY_DELAY = 1"

section \<open>Values, exceptions and the outside world\<close>

text \<open>
  The exceptions that the modelled operations can raise. All of them are subclasses of
  Python's \<open>Exception\<close>, so an \<open>except Exception\<close> clause catches every one of them.
  \<open>ConnectionError\<close>, \<open>Timeout\<close>, \<open>HTTPError\<close> and, from version 2.27 of the
  library on, the \<open>JSONDecodeError\<close> of \<open>response.json()\<close> are subclasses of
  \<open>requests.RequestException\<close>; the others are not. Interrupts of the interpreter
  (\<open>KeyboardInterrupt\<close>, \<open>SystemExit\<close>), which are not instances of \<open>Exception\<close>, are
  not part of the model.
\<close>

datatype pyexc =
    ConnectionError | Timeout | HTTPError
  | JSONDecodeError | ParseError
  | AttributeError | TypeError | ValueError | KeyError | RuntimeError

fun is_RequestException :: "pyexc \<Rightarrow> bool" where
  "is_RequestException ConnectionError = True"
| "is_RequestException Timeout = True"
| "is_RequestException HTTPError = True"
| "is_RequestException JSONDecodeError = True"
| "is_RequestException _ = False"

text \<open>
  A decoded JSON payload, as \<open>response.json()\<close> returns it: \<open>None\<close>, a bool, an
  integer, a string, a list or a dict (in insertion order). Numbers with a fractional part
  are left out.
\<close>

datatype json =
    JNull | JBool bool | JNum int | JStr string
  | JArr "json list" | JObj "(string \<times> json) list"

text \<open>
  An element of an \<open>xml.etree.ElementTree\<close> document: tag, attributes, the text before
  the first child (\<open>None\<close> when there is none) and the children in document order.
\<close>

datatype xml = Element (tag: string) (attrib: "(string \<times> string) list")
  (elem_text: "string option") (children: "xml list")

text \<open>
  A response of the remote service. \<open>json_body\<close> is what \<open>response.json()\<close> does and
  \<open>xml_body\<close> what \<open>ET.fromstring(response.content)\<close> does: either raises or yields the
  decoded value.
\<close>

record response =
  status_code :: nat
  json_body :: "pyexc + json"
  xml_body :: "pyexc + xml"

text \<open>A value of the \<open>params\<close> dict of a request.\<close>

datatype pval = PStr string | PInt int

type_synonym params = "(string \<times> pval) list"

text \<open>
  The remote service: what the \<open>n\<close>-th call of \<open>requests.get\<close> made by the process
  (counted from 0) does for the given URL and parameters: it raises, or it returns a
  response.
\<close>

type_synonym transport = "nat \<Rightarrow> string \<Rightarrow> params \<Rightarrow> pyexc + response"

datatype log_level = INFO | WARNING | ERROR

text \<open>
  The effects of the program on the outside: the requests issued so far, the number of
  seconds slept between retries and the levels of the log records written (their text is
  not modelled).
\<close>

record world =
  sent :: "(string \<times> params) list"
  slept :: nat
  logged :: "log_level list"

definition log :: "log_level \<Rightarrow> world \<Rightarrow> world" where
  "log l w = w\<lparr>logged := logged w @ [l]\<rparr>"

definition sleep :: "nat \<Rightarrow> world \<Rightarrow> world" where
  "sleep d w = w\<lparr>slept := slept w + d\<rparr>"

section \<open>TransportClient: \<open>make_api_request\<close>\<close>

text \<open>\<open>response.raise_for_status()\<close>: an \<open>HTTPError\<close> for a 4xx or 5xx status.\<close>

definition raise_for_status :: "response \<Rightarrow> pyexc + unit" where
  "raise_for_status r =
     (if 400 \<le> status_code r \<and> status_code r < 600 then Inl HTTPError else Inr ())"

text \<open>
  The body of the \<open>try\<close> block of one iteration: the GET, then the status check. The
  request is the \<open>n\<close>-th of the process.
\<close>

definition try_get :: "transport \<Rightarrow> nat \<Rightarrow> string \<Rightarrow> params \<Rightarrow> pyexc + response" where
  "try_get t n url ps =
     (case t n url ps of
        Inl e \<Rightarrow> Inl e
      | Inr r \<Rightarrow> (case raise_for_status r of Inl e \<Rightarrow> Inl e | Inr _ \<Rightarrow> Inr r))"

text \<open>Sending one GET: the request is appended to the requests sent.\<close>

definition send_request :: "string \<Rightarrow> params \<Rightarrow> world \<Rightarrow> world" where
  "send_request url ps w = w\<lparr>sent := sent w @ [(url, ps)]\<rparr>"

text \<open>
  The \<open>while attempt < retries\<close> loop. The result is \<open>Inl e\<close> when the exception \<open>e\<close>
  leaves the function, \<open>Inr (Some r)\<close> when it returns the response \<open>r\<close>, and
  \<open>Inr None\<close> when control falls off the end of the function, which returns \<open>None\<close>.
  An exception that is not a \<open>RequestException\<close> is not caught by the \<open>except\<close> clause.
\<close>

function retry_loop ::
  "transport \<Rightarrow> string \<Rightarrow> params \<Rightarrow> int \<Rightarrow> int \<Rightarrow> world \<Rightarrow> (pyexc + response option) \<times> world"
where
  "retry_loop t url ps retries attempt w =
     (if attempt < retries then
        (case try_get t (length (sent w)) url ps of
           Inr r \<Rightarrow> (Inr (Some r), send_request url ps w)
         | Inl e \<Rightarrow>
             (if is_RequestException e then
                (if attempt + 1 = retries
                 then (Inl e, log ERROR (send_request url ps w))
                 else retry_loop t url ps retries (attempt + 1)
                        (log WARNING (sleep RETRY_DELAY (send_request url ps w))))
              else (Inl e, send_request url ps w)))
      else (Inr None, w))"
  by pat_completeness auto
termination
  by (relation "measure (\<lambda>(t, url, ps, retries, attempt, w). nat (retries - attempt))") auto

declare retry_loop.simps [simp del]

definition make_api_request ::
  "transport \<Rightarrow> string \<Rightarrow> params \<Rightarrow> int \<Rightarrow> world \<Rightarrow> (pyexc + response option) \<times> world"
where
  "make_api_request t endpoint ps retries w =
     retry_loop t (NCBI_API_BASE @ ''/'' @ endpoint) ps retries 0 w"

text \<open>
  Vocabulary for the retry properties. An attempt is a transient failure when its
  \<open>try\<close> block raises a \<open>RequestException\<close>; \<open>after_failures url ps k w\<close> is the world
  after \<open>k\<close> attempts that failed and were retried: \<open>k\<close> requests, \<open>k\<close> delays and \<open>k\<close>
  warnings.
\<close>

definition transient :: "transport \<Rightarrow> nat \<Rightarrow> string \<Rightarrow> params \<Rightarrow> bool" where
  "transient t n url ps =
     (case try_get t n url ps of Inl e \<Rightarrow> is_RequestException e | Inr _ \<Rightarrow> False)"

definition after_failures :: "string \<Rightarrow> params \<Rightarrow> nat \<Rightarrow> world \<Rightarrow> world" where
  "after_failures url ps k w =
     w\<lparr>sent := sent w @ replicate k (url, ps), slept := slept w + k * RETRY_DELAY,
       logged := logged w @ replicate k WARNING\<rparr>"

text \<open>Stubs of the remote service and the initial world, for concrete runs.\<close>

definition ok_response :: response where
  "ok_response = \<lparr>status_code = 200, json_body = Inr (JObj []), xml_body = Inl ParseError\<rparr>"

definition always_failing :: transport where
  "always_failing n url ps = Inl ConnectionError"

definition failing_twice :: transport where
  "failing_twice n url ps = (if n < 2 then Inl Timeout else Inr ok_response)"

definition world0 :: world where
  "world0 = \<lparr>sent = [], slept = 0, logged = []\<rparr>"


section \<open>Python built-ins used by the program\<close>

text \<open>\<open>sep.join(xs)\<close> on a list of strings.\<close>

fun join :: "string \<Rightarrow> string list \<Rightarrow> string" where
  "join sep [] = []"
| "join sep [x] = x"
| "join sep (x # y # ys) = x @ sep @ join sep (y # ys)"

text \<open>Truthiness of a value, as \<open>if x\<close> and \<open>not x\<close> test it.\<close>

fun truthy :: "json \<Rightarrow> bool" where
  "truthy JNull = False"
| "truthy (JBool b) = b"
| "truthy (JNum n) = (n \<noteq> 0)"
| "truthy (JStr s) = (s \<noteq> [])"
| "truthy (JArr xs) = (xs \<noteq> [])"
| "truthy (JObj kvs) = (kvs \<noteq> [])"

text \<open>Truthiness of the result of \<open>d.get(key)\<close> for a string-valued key.\<close>

fun truthy_opt :: "string option \<Rightarrow> bool" where
  "truthy_opt None = False"
| "truthy_opt (Some s) = (s \<noteq> [])"

text \<open>\<open>d.get(key, default)\<close> when \<open>d.get(key)\<close> is \<open>v\<close>.\<close>

fun get_default :: "'a option \<Rightarrow> 'a \<Rightarrow> 'a" where
  "get_default None d = d"
| "get_default (Some v) d = v"

text \<open>Sequencing of steps that may raise.\<close>

fun bind_exc :: "pyexc + 'a \<Rightarrow> ('a \<Rightarrow> pyexc + 'b) \<Rightarrow> pyexc + 'b" where
  "bind_exc (Inl e) f = Inl e"
| "bind_exc (Inr x) f = f x"

text \<open>
  \<open>except Exception\<close> catches an exception when it is an instance of \<open>Exception\<close>;
  every exception of the model is.
\<close>

fun is_Exception :: "pyexc \<Rightarrow> bool" where
  "is_Exception e = True"

text \<open>\<open>x.get(key, default)\<close> on a decoded value: only a dict has the method.\<close>

fun json_get :: "json \<Rightarrow> string \<Rightarrow> json \<Rightarrow> pyexc + json" where
  "json_get (JObj kvs) k d = Inr (get_default (map_of kvs k) d)"
| "json_get _ k d = Inl AttributeError"

text \<open>\<open>len(x)\<close>.\<close>

fun py_len :: "json \<Rightarrow> pyexc + nat" where
  "py_len (JStr s) = Inr (length s)"
| "py_len (JArr xs) = Inr (length xs)"
| "py_len (JObj kvs) = Inr (length kvs)"
| "py_len _ = Inl TypeError"

text \<open>
  Strings are sequences of bytes: a character outside ASCII is its UTF-8 encoding. The
  white space that Python recognises, as encoded characters: the ASCII white space, the
  separator controls U+001C to U+001F, and the Unicode white space from U+0085 on
  (U+0085, U+00A0, U+1680, U+2000 to U+200A, U+2028, U+2029, U+202F, U+205F, U+3000).
\<close>

definition ascii_spaces :: "string list" where
  "ascii_spaces = [[CHR 0x09], [CHR 0x0A], [CHR 0x0B], [CHR 0x0C], [CHR 0x0D], [CHR 0x20]]"

definition separator_controls :: "string list" where
  "separator_controls = [[CHR 0x1C], [CHR 0x1D], [CHR 0x1E], [CHR 0x1F]]"

definition unicode_spaces :: "string list" where
  "unicode_spaces =
     [[CHR 0xC2, CHR 0x85], [CHR 0xC2, CHR 0xA0], [CHR 0xE1, CHR 0x9A, CHR 0x80],
      [CHR 0xE2, CHR 0x80, CHR 0x80], [CHR 0xE2, CHR 0x80, CHR 0x81],
      [CHR 0xE2, CHR 0x80, CHR 0x82], [CHR 0xE2, CHR 0x80, CHR 0x83],
      [CHR 0xE2, CHR 0x80, CHR 0x84], [CHR 0xE2, CHR 0x80, CHR 0x85],
      [CHR 0xE2, CHR 0x80, CHR 0x86], [CHR 0xE2, CHR 0x80, CHR 0x87],
      [CHR 0xE2, CHR 0x80, CHR 0x88], [CHR 0xE2, CHR 0x80, CHR 0x89],
      [CHR 0xE2, CHR 0x80, CHR 0x8A], [CHR 0xE2, CHR 0x80, CHR 0xA8],
      [CHR 0xE2, CHR 0x80, CHR 0xA9], [CHR 0xE2, CHR 0x80, CHR 0xAF],
      [CHR 0xE2, CHR 0x81, CHR 0x9F], [CHR 0xE3, CHR 0x80, CHR 0x80]]"

text \<open>
  Removing, at the left end, every leading character that is one of the encoded
  characters \<open>qs\<close>; at the right end, the same on the reversed string.
\<close>

function lstrip :: "string list \<Rightarrow> string \<Rightarrow> string" where
  "lstrip qs s =
     (case List.find (\<lambda>q. q \<noteq> [] \<and> take (length q) s = q) qs of
        None \<Rightarrow> s
      | Some q \<Rightarrow> lstrip qs (drop (length q) s))"
  by pat_completeness auto
termination
proof (relation "measure (\<lambda>(qs, s). length s)")
  show "wf (measure (\<lambda>(qs, s). length s))" by simp
next
  fix qs :: "string list" and s q :: string
  assume "List.find (\<lambda>q. q \<noteq> [] \<and> take (length q) s = q) qs = Some q"
  then have q: "q \<noteq> []" "take (length q) s = q"
    by (auto simp: find_Some_iff)
  then have "s \<noteq> []" by auto
  with q(1) show "((qs, drop (length q) s), (qs, s)) \<in> measure (\<lambda>(qs, s). length s)"
    by simp
qed

declare lstrip.simps [simp del]

definition rstrip :: "string list \<Rightarrow> string \<Rightarrow> string" where
  "rstrip qs s = rev (lstrip (map rev qs) (rev s))"

text \<open>\<open>s.strip()\<close> removes all the white space at both ends.\<close>

definition strip :: "string \<Rightarrow> string" where
  "strip s = rstrip (ascii_spaces @ separator_controls @ unicode_spaces)
               (lstrip (ascii_spaces @ separator_controls @ unicode_spaces) s)"

text \<open>
  \<open>int()\<close> removes the ASCII white space and the Unicode white space at both ends, and
  not the separator controls.
\<close>

definition int_strip :: "string \<Rightarrow> string" where
  "int_strip s = rstrip (ascii_spaces @ unicode_spaces) (lstrip (ascii_spaces @ unicode_spaces) s)"

definition is_digit :: "char \<Rightarrow> bool" where
  "is_digit c = (CHR ''0'' \<le> c \<and> c \<le> CHR ''9'')"

definition digit_value :: "char \<Rightarrow> nat" where
  "digit_value c = of_char c - 48"

text \<open>
  Decimal digits, where single underscores may separate digits, read from the left with
  the value so far in \<open>acc\<close>.
\<close>

fun digits_value :: "nat \<Rightarrow> string \<Rightarrow> pyexc + nat" where
  "digits_value acc [] = Inr acc"
| "digits_value acc (c # cs) =
     (if is_digit c then digits_value (acc * 10 + digit_value c) cs
      else if c = CHR ''_'' \<and> cs \<noteq> [] \<and> is_digit (hd cs) then digits_value acc cs
      else Inl ValueError)"

text \<open>The default limit of Python on the number of digits of a string given to \<open>int()\<close>.\<close>

definition MAX_STR_DIGITS :: nat where
  "MAX_STR_DIGITS = 4300"

definition unsigned_value :: "string \<Rightarrow> pyexc + nat" where
  "unsigned_value s =
     (if s \<noteq> [] \<and> is_digit (hd s) \<and> length (filter is_digit s) \<le> MAX_STR_DIGITS
      then digits_value 0 s else Inl ValueError)"

text \<open>
  \<open>int(x)\<close>: a string is parsed in base 10, with an optional sign. The digits are the
  ASCII digits: the decimal digits of other scripts, which \<open>int()\<close> also reads, are not
  modelled, and a string that holds one is taken to raise \<open>ValueError\<close>.
\<close>

fun py_int :: "json \<Rightarrow> pyexc + int" where
  "py_int (JNum n) = Inr n"
| "py_int (JBool b) = Inr (if b then 1 else 0)"
| "py_int (JStr s) =
     (case int_strip s of
        [] \<Rightarrow> Inl ValueError
      | c # cs \<Rightarrow>
          if c = CHR ''-'' then bind_exc (unsigned_value cs) (\<lambda>n. Inr (- int n))
          else if c = CHR ''+'' then bind_exc (unsigned_value cs) (\<lambda>n. Inr (int n))
          else bind_exc (unsigned_value (c # cs)) (\<lambda>n. Inr (int n)))"
| "py_int _ = Inl TypeError"

text \<open>\<open>str(n)\<close> for an integer.\<close>

definition digit_char :: "nat \<Rightarrow> char" where
  "digit_char d = ''0123456789'' ! d"

fun str_nat :: "nat \<Rightarrow> string" where
  "str_nat n =
     (if n < 10 then [digit_char n] else str_nat (n div 10) @ [digit_char (n mod 10)])"

declare str_nat.simps [simp del]

definition str_int :: "int \<Rightarrow> string" where
  "str_int i = (if i < 0 then ''-'' @ str_nat (nat (- i)) else str_nat (nat i))"

text \<open>
  \<open>",".join(x)\<close>: the items of a list must be strings, a string is iterated by
  character and a dict by key; anything else is not iterable.
\<close>

fun json_str :: "json \<Rightarrow> pyexc + string" where
  "json_str (JStr s) = Inr s"
| "json_str _ = Inl TypeError"

fun strings_of :: "json list \<Rightarrow> pyexc + string list" where
  "strings_of [] = Inr []"
| "strings_of (x # xs) =
     bind_exc (json_str x) (\<lambda>s. bind_exc (strings_of xs) (\<lambda>ss. Inr (s # ss)))"

fun py_join :: "string \<Rightarrow> json \<Rightarrow> pyexc + string" where
  "py_join sep (JArr xs) = bind_exc (strings_of xs) (\<lambda>ss. Inr (join sep ss))"
| "py_join sep (JStr s) = Inr (join sep (map (\<lambda>c. [c]) s))"
| "py_join sep (JObj kvs) = Inr (join sep (map fst kvs))"
| "py_join sep _ = Inl TypeError"

text \<open>\<open>x[:n]\<close>: a list or a string can be sliced, a dict cannot.\<close>

fun py_slice :: "nat \<Rightarrow> json \<Rightarrow> pyexc + json" where
  "py_slice n (JArr xs) = Inr (JArr (take n xs))"
| "py_slice n (JStr s) = Inr (JStr (take n s))"
| "py_slice n _ = Inl TypeError"

text \<open>
  A dict in insertion order. \<open>d[k] = v\<close> replaces the value of a key that is present, in
  place, and appends a new key at the end; \<open>d.items()\<close> is the list itself.
\<close>

fun dict_set :: "'k \<Rightarrow> 'v \<Rightarrow> ('k \<times> 'v) list \<Rightarrow> ('k \<times> 'v) list" where
  "dict_set k v [] = [(k, v)]"
| "dict_set k v ((k', v') # kvs) =
     (if k = k' then (k', v) # kvs else (k', v') # dict_set k v kvs)"

text \<open>
  \<open>sorted(xs, key=f, reverse=True)\<close>: the list is reversed, sorted stably by ascending
  key and reversed again.
\<close>

definition sorted_reverse :: "('a \<Rightarrow> 'k::linorder) \<Rightarrow> 'a list \<Rightarrow> 'a list" where
  "sorted_reverse f xs = rev (sort_key f (rev xs))"

section \<open>QueryBuilder\<close>

definition create_author_clause :: "string list \<Rightarrow> string" where
  "create_author_clause names =
     (if names = [] then ''''
      else ''('' @ join '' OR '' (map (\<lambda>name. name @ ''[Author]'') names) @ '')'')"

definition create_keyword_clause :: "string list \<Rightarrow> string" where
  "create_keyword_clause terms =
     (if terms = [] then ''''
      else ''('' @ join '' OR '' (map (\<lambda>term. term @ ''[Title/Abstract]'') terms) @ '')'')"

definition combine_clauses :: "string list \<Rightarrow> string" where
  "combine_clauses clauses = join '' AND '' (filter (\<lambda>clause. clause \<noteq> []) clauses)"

section \<open>SearchResolver: \<open>retrieve_article_ids\<close>\<close>

definition search_params :: "string \<Rightarrow> int \<Rightarrow> params" where
  "search_params search_query max_count =
     [(''db'', PStr ''pubmed''), (''term'', PStr search_query), (''retmax'', PInt max_count),
      (''retmode'', PStr ''json''), (''usehistory'', PStr ''y'')]"

text \<open>
  The statements of the \<open>try\<close> block after the request: decoding the payload, reading the
  identifier list and the count, and the \<open>len(id_list)\<close> of the log message. A response
  that is \<open>None\<close> has no method \<open>json\<close>.
\<close>

definition read_search_result :: "response option \<Rightarrow> pyexc + (json \<times> int)" where
  "read_search_result resp =
     (case resp of
        None \<Rightarrow> Inl AttributeError
      | Some response \<Rightarrow>
          bind_exc (json_body response) (\<lambda>data.
          bind_exc (json_get data ''esearchresult'' (JObj [])) (\<lambda>result1.
          bind_exc (json_get result1 ''idlist'' (JArr [])) (\<lambda>id_list.
          bind_exc (json_get data ''esearchresult'' (JObj [])) (\<lambda>result2.
          bind_exc (json_get result2 ''count'' (JNum 0)) (\<lambda>count.
          bind_exc (py_int count) (\<lambda>total_count.
          bind_exc (py_len id_list) (\<lambda>_.
          Inr (id_list, total_count)))))))))"

text \<open>
  \<open>retrieve_article_ids\<close>. \<open>Inl\<close> would be an exception that leaves the function. The
  default \<open>retries\<close> of \<open>make_api_request\<close> is \<open>RETRY_ATTEMPTS\<close>.
\<close>

definition retrieve_article_ids ::
  "transport \<Rightarrow> string \<Rightarrow> int \<Rightarrow> world \<Rightarrow> (pyexc + (json \<times> int)) \<times> world"
where
  "retrieve_article_ids t search_query max_count w =
     (if search_query = [] then (Inr (JArr [], 0), w)
      else
        (case make_api_request t ''esearch.fcgi'' (search_params search_query max_count)
                RETRY_ATTEMPTS (log INFO w) of
           (Inl e, w1) \<Rightarrow>
             (if is_Exception e then (Inr (JArr [], 0), log ERROR w1) else (Inl e, w1))
         | (Inr resp, w1) \<Rightarrow>
             (case read_search_result resp of
                Inl e \<Rightarrow>
                  (if is_Exception e then (Inr (JArr [], 0), log ERROR w1) else (Inl e, w1))
              | Inr (id_list, total_count) \<Rightarrow> (Inr (id_list, total_count), log INFO w1))))"

section \<open>MetadataFetcher: \<open>fetch_article_metadata\<close>\<close>

definition fetch_params :: "string \<Rightarrow> params" where
  "fetch_params ids = [(''db'', PStr ''pubmed''), (''id'', PStr ids), (''retmode'', PStr ''xml'')]"

text \<open>\<open>ET.fromstring(response.content)\<close>; a response that is \<open>None\<close> has no content.\<close>

definition read_document :: "response option \<Rightarrow> pyexc + xml" where
  "read_document resp =
     (case resp of None \<Rightarrow> Inl AttributeError | Some response \<Rightarrow> xml_body response)"

definition fetch_article_metadata ::
  "transport \<Rightarrow> json \<Rightarrow> world \<Rightarrow> (pyexc + xml option) \<times> world"
where
  "fetch_article_metadata t article_ids w =
     (if \<not> truthy article_ids then (Inr None, w)
      else
        (case py_join '','' article_ids of
           Inl e \<Rightarrow> (if is_Exception e then (Inr None, log ERROR w) else (Inl e, w))
         | Inr ids \<Rightarrow>
             (case make_api_request t ''efetch.fcgi'' (fetch_params ids) RETRY_ATTEMPTS w of
                (Inl e, w1) \<Rightarrow>
                  (if is_Exception e then (Inr None, log ERROR w1) else (Inl e, w1))
              | (Inr resp, w1) \<Rightarrow>
                  (case read_document resp of
                     Inl e \<Rightarrow> (if is_Exception e then (Inr None, log ERROR w1) else (Inl e, w1))
                   | Inr root \<Rightarrow> (Inr (Some root), w1)))))"

section \<open>The document tree and its path queries\<close>

text \<open>
  The steps of the ElementPath expressions that the program uses: \<open>.\<close> (the context
  node), \<open>//tag\<close> (all descendants with the tag), \<open>/tag\<close> or a leading \<open>tag\<close> (the
  children with the tag) and \<open>[@key='value']\<close> (the nodes whose attribute has the value).
\<close>

datatype step = Self | Descendant string | Child string | AttrIs string string

type_synonym path = "step list"

text \<open>The descendants of an element in document order, the element itself excluded.\<close>

fun descendants :: "xml \<Rightarrow> xml list" where
  "descendants (Element tg as tx cs) = concat (map (\<lambda>c. c # descendants c) cs)"

fun select :: "step \<Rightarrow> xml list \<Rightarrow> xml list" where
  "select Self result = result"
| "select (Descendant tg) result =
     concat (map (\<lambda>elem. filter (\<lambda>e. tag e = tg) (descendants elem)) result)"
| "select (Child tg) result =
     concat (map (\<lambda>elem. filter (\<lambda>e. tag e = tg) (children elem)) result)"
| "select (AttrIs key val) result =
     filter (\<lambda>elem. map_of (attrib elem) key = Some val) result"

text \<open>\<open>element.findall(path)\<close>: the steps are applied in turn, starting from the element.\<close>

definition findall :: "xml \<Rightarrow> path \<Rightarrow> xml list" where
  "findall element p = foldl (\<lambda>result s. select s result) [element] p"

text \<open>
  \<open>element.findtext(path)\<close>: \<open>None\<close> when nothing matches, else the text of the first
  match, which is the empty string when that element has no text.
\<close>

definition findtext :: "xml \<Rightarrow> path \<Rightarrow> string option" where
  "findtext element p =
     (case findall element p of
        [] \<Rightarrow> None
      | e # _ \<Rightarrow> Some (case elem_text e of None \<Rightarrow> '''' | Some s \<Rightarrow> s))"

section \<open>ArticleParser\<close>

text \<open>
  The records that the parser builds are dicts with string keys. A dict is modelled as a
  record with one optional field for each key the program uses: \<open>None\<close> is a key that is
  missing from the dict. The key \<open>id\<close> is the field \<open>id_key\<close>; the key \<open>citation\<close> is
  added by \<open>get_publication_details\<close>.
\<close>

record author_entry =
  lastname :: "string option"
  forename :: "string option"
  initials :: "string option"
  full_name :: "string option"

record journal_info =
  name :: "string option"
  volume :: "string option"
  issue :: "string option"
  pages :: "string option"

record article =
  id_key :: "string option"
  url :: "string option"
  title :: "string option"
  journal :: "journal_info option"
  publication_date :: "string option"
  doi :: "string option"
  "abstract" :: "string option"
  authors :: "author_entry list option"
  "keywords" :: "string list option"
  citation :: "string option"

definition NA :: string where
  "NA = ''N/A''"

text \<open>
  \<open>extract_text(element, xpath, default)\<close>, with \<open>dflt\<close> for the parameter \<open>default\<close>,
  whose default value is \<open>NA\<close>.
\<close>

definition extract_text :: "xml \<Rightarrow> path \<Rightarrow> string \<Rightarrow> string" where
  "extract_text element xpath dflt =
     (case findtext element xpath of
        None \<Rightarrow> dflt
      | Some result \<Rightarrow> if result \<noteq> [] then result else dflt)"

text \<open>The body of the loop of \<open>extract_authors\<close> for one \<open>Author\<close> element.\<close>

definition author_of :: "xml \<Rightarrow> author_entry list" where
  "author_of author_elem =
     (let ln = extract_text author_elem [Child ''LastName''] '''';
          fn = extract_text author_elem [Child ''ForeName''] '''';
          ini = extract_text author_elem [Child ''Initials''] ''''
      in if ln \<noteq> [] \<or> fn \<noteq> [] \<or> ini \<noteq> []
         then [\<lparr>lastname = Some ln, forename = Some fn, initials = Some ini,
                full_name = Some (if fn \<noteq> [] then ln @ '' '' @ fn else ln @ '' '' @ ini)\<rparr>]
         else [])"

definition extract_authors :: "xml \<Rightarrow> author_entry list" where
  "extract_authors art = concat (map author_of (findall art [Self, Descendant ''Author'']))"

definition extract_keywords :: "xml \<Rightarrow> string list" where
  "extract_keywords art =
     concat (map (\<lambda>keyword. case elem_text keyword of
                               None \<Rightarrow> []
                             | Some s \<Rightarrow> if s \<noteq> [] then [s] else [])
                 (findall art [Self, Descendant ''Keyword'']))"

text \<open>The body of the loop of \<open>process_articles\<close>: the record of one article node.\<close>

definition article_data :: "xml \<Rightarrow> article" where
  "article_data art =
     (let pmid = extract_text art [Self, Descendant ''PMID''] NA
      in \<lparr>id_key = Some pmid,
          url = Some (ARTICLE_VIEW_BASE @ ''/'' @ pmid),
          title = Some (extract_text art [Self, Descendant ''ArticleTitle''] NA),
          journal = Some
            \<lparr>name = Some (extract_text art [Self, Descendant ''Journal'', Child ''Title''] NA),
             volume = Some (extract_text art
               [Self, Descendant ''Journal'', Child ''JournalIssue'', Child ''Volume''] NA),
             issue = Some (extract_text art
               [Self, Descendant ''Journal'', Child ''JournalIssue'', Child ''Issue''] NA),
             pages = Some (extract_text art
               [Self, Descendant ''Pagination'', Child ''MedlinePgn''] NA)\<rparr>,
          publication_date = Some (extract_text art [Self, Descendant ''PubDate'', Child ''Year''] NA),
          doi = Some (extract_text art
            [Self, Descendant ''ELocationID'', AttrIs ''EIdType'' ''doi''] NA),
          abstract = Some (extract_text art
            [Self, Descendant ''Abstract'', Child ''AbstractText''] NA),
          authors = Some (extract_authors art),
          keywords = Some (extract_keywords art),
          citation = None\<rparr>)"

definition process_articles :: "xml option \<Rightarrow> article list" where
  "process_articles root_element =
     (case root_element of
        None \<Rightarrow> []
      | Some root \<Rightarrow> map article_data (findall root [Self, Descendant ''PubmedArticle'']))"

section \<open>CitationFormatter: \<open>generate_citation\<close>\<close>

text \<open>The dict \<open>{}\<close> that \<open>article.get("journal", {})\<close> defaults to.\<close>

definition no_journal :: journal_info where
  "no_journal = \<lparr>name = None, volume = None, issue = None, pages = None\<rparr>"

text \<open>
  The list \<open>author_list\<close> that the first part of \<open>generate_citation\<close> builds;
  \<open>author_token\<close> is the formatted string of one author, "lastname initials".
\<close>

definition author_token :: "author_entry \<Rightarrow> string" where
  "author_token author =
     get_default (lastname author) '''' @ '' '' @ get_default (initials author) ''''"

definition author_list :: "article \<Rightarrow> string list" where
  "author_list a =
     (let named = map author_token (take 6 (get_default (authors a) []))
      in if length (get_default (authors a) []) > 6 then named @ [''et al''] else named)"

text \<open>
  \<open>generate_citation\<close>. With the values of a record being strings, no statement of the
  \<open>try\<close> block raises, so the \<open>except\<close> branch is not taken.
\<close>

definition generate_citation :: "article \<Rightarrow> string" where
  "generate_citation a =
     (let authors_text = join '', '' (author_list a);
          j = get_default (journal a) no_journal;
          c0 = authors_text @ ''. '' @ get_default (title a) '''' @ ''. '' @
               get_default (name j) '''' @ ''. '' @ get_default (publication_date a) '''' @
               '';'' @ get_default (volume j) '''';
          c1 = (if truthy_opt (issue j) then c0 @ ''('' @ the (issue j) @ '')'' else c0);
          c2 = (if truthy_opt (pages j) then c1 @ '':'' @ the (pages j) else c1);
          c3 = c2 @ ''.''
      in if truthy_opt (doi a) then c3 @ '' doi: '' @ the (doi a) else c3)"

section \<open>Tool handlers\<close>

text \<open>
  The values of a result envelope, a dict from string keys. \<open>EMessageOf e\<close> is \<open>str(e)\<close>
  for a caught exception \<open>e\<close>; \<open>EPerformance\<close> is the dict holding the rounded elapsed
  wall-clock time, whose value is not modelled; \<open>EJournals\<close> and \<open>EYears\<close> are lists of
  the dicts \<open>{"name": j, "count": c}\<close> and \<open>{"year": y, "count": c}\<close>, as pairs.
\<close>

datatype envval =
    EStr string | EInt int | EMessageOf pyexc | EPerformance
  | EArticles "article list" | EPublication article
  | EJournals "(string \<times> int) list" | EYears "(string \<times> int) list"
  | ETitles "string option list"

type_synonym envelope = "(string \<times> envval) list"

text \<open>The \<open>except Exception\<close> handler of \<open>find_articles\<close>.\<close>

definition find_articles_failed :: "pyexc \<Rightarrow> world \<Rightarrow> envelope \<times> world" where
  "find_articles_failed e w =
     ([(''status'', EStr ''error''), (''message'', EMessageOf e), (''articles'', EArticles [])],
      log ERROR w)"

definition find_articles ::
  "transport \<Rightarrow> string list \<Rightarrow> string list \<Rightarrow> int \<Rightarrow> world \<Rightarrow> envelope \<times> world"
where
  "find_articles t topics researchers result_limit w =
     (let author_clause = create_author_clause researchers;
          topic_clause = create_keyword_clause topics;
          query = combine_clauses [author_clause, topic_clause]
      in if query = [] then
           ([(''status'', EStr ''error''),
             (''message'', EStr ''Search requires at least one topic or researcher name''),
             (''articles'', EArticles [])], w)
         else
           (case retrieve_article_ids t query result_limit w of
              (Inl e, w1) \<Rightarrow> find_articles_failed e w1
            | (Inr (article_ids, total_count), w1) \<Rightarrow>
                if \<not> truthy article_ids then
                  ([(''status'', EStr ''success''),
                    (''message'', EStr ''No articles found matching the search criteria''),
                    (''total_available'', EInt 0),
                    (''articles'', EArticles [])], w1)
                else
                  (case fetch_article_metadata t article_ids w1 of
                     (Inl e, w2) \<Rightarrow> find_articles_failed e w2
                   | (Inr root, w2) \<Rightarrow>
                       (let articles = process_articles root
                        in ([(''status'', EStr ''success''),
                             (''message'', EStr (''Found '' @ str_int total_count @
                                '' articles, returning '' @ str_int (int (length articles)))),
                             (''total_available'', EInt total_count),
                             (''retrieved'', EInt (int (length articles))),
                             (''performance'', EPerformance),
                             (''articles'', EArticles articles)], w2)))))"

text \<open>The \<open>except Exception\<close> handler of the other two tools.\<close>

definition tool_failed :: "pyexc \<Rightarrow> world \<Rightarrow> envelope \<times> world" where
  "tool_failed e w = ([(''status'', EStr ''error''), (''message'', EMessageOf e)], log ERROR w)"

definition get_publication_details :: "transport \<Rightarrow> string \<Rightarrow> world \<Rightarrow> envelope \<times> world" where
  "get_publication_details t article_id w =
     (if article_id = [] \<or> strip article_id = [] then
        ([(''status'', EStr ''error''), (''message'', EStr ''Article ID is required'')], w)
      else
        (case fetch_article_metadata t (JArr [JStr article_id]) w of
           (Inl e, w1) \<Rightarrow> tool_failed e w1
         | (Inr None, w1) \<Rightarrow>
             ([(''status'', EStr ''error''),
               (''message'', EStr (''Failed to retrieve data for article ID: '' @ article_id))],
              w1)
         | (Inr (Some root), w1) \<Rightarrow>
             (case process_articles (Some root) of
                [] \<Rightarrow>
                  ([(''status'', EStr ''error''),
                    (''message'', EStr (''No article found with ID: '' @ article_id))], w1)
              | a # _ \<Rightarrow>
                  ([(''status'', EStr ''success''),
                    (''publication'',
                       EPublication (a\<lparr>citation := Some (generate_citation a)\<rparr>))], w1))))"

section \<open>StatisticsAggregator\<close>

text \<open>
  One counting step of the loop, \<open>if v and v != "N/A": d[v] = d.get(v, 0) + 1\<close>, where
  \<open>v\<close> is the result of a \<open>get\<close> without default.
\<close>

definition count_key :: "string option \<Rightarrow> (string \<times> int) list \<Rightarrow> (string \<times> int) list" where
  "count_key v d =
     (if truthy_opt v \<and> the v \<noteq> NA
      then dict_set (the v) (get_default (map_of d (the v)) 0 + 1) d
      else d)"

text \<open>The body of the loop over the articles, on the dicts \<open>journals\<close> and \<open>years\<close>.\<close>

definition tally_step ::
  "article \<Rightarrow> (string \<times> int) list \<times> (string \<times> int) list
     \<Rightarrow> (string \<times> int) list \<times> (string \<times> int) list"
where
  "tally_step a jy =
     (count_key (name (get_default (journal a) no_journal)) (fst jy),
      count_key (publication_date a) (snd jy))"

definition tally :: "article list \<Rightarrow> (string \<times> int) list \<times> (string \<times> int) list" where
  "tally articles = fold tally_step articles ([], [])"

definition top_journals :: "article list \<Rightarrow> (string \<times> int) list" where
  "top_journals articles = take 5 (sorted_reverse snd (fst (tally articles)))"

definition publication_years :: "article list \<Rightarrow> (string \<times> int) list" where
  "publication_years articles = sorted_reverse fst (snd (tally articles))"

definition get_article_statistics :: "transport \<Rightarrow> string \<Rightarrow> world \<Rightarrow> envelope \<times> world" where
  "get_article_statistics t researcher w =
     (if researcher = [] \<or> strip researcher = [] then
        ([(''status'', EStr ''error''), (''message'', EStr ''Researcher name is required'')], w)
      else
        (case retrieve_article_ids t (researcher @ ''[Author]'') 100 w of
           (Inl e, w1) \<Rightarrow> tool_failed e w1
         | (Inr (article_ids, total_count), w1) \<Rightarrow>
             if truthy article_ids then
               (case py_slice 10 article_ids of
                  Inl e \<Rightarrow> tool_failed e w1
                | Inr first_ids \<Rightarrow>
                    (case fetch_article_metadata t first_ids w1 of
                       (Inl e, w2) \<Rightarrow> tool_failed e w2
                     | (Inr root, w2) \<Rightarrow>
                         (let articles = process_articles root
                          in ([(''status'', EStr ''success''),
                               (''researcher'', EStr researcher),
                               (''total_publications'', EInt total_count),
                               (''recent_sample_size'', EInt (int (length articles))),
                               (''top_journals'', EJournals (top_journals articles)),
                               (''publication_years'', EYears (publication_years articles)),
                               (''sample_titles'', ETitles (map title (take 5 articles)))],
                              w2))))
             else
               ([(''status'', EStr ''success''),
                 (''researcher'', EStr researcher),
                 (''total_publications'', EInt 0),
                 (''message'', EStr ''No publications found for this researcher'')], w1)))"

section \<open>Stubs of the remote service and sample data\<close>

text \<open>A service whose payload is not JSON.\<close>

definition bad_response :: response where
  "bad_response = \<lparr>status_code = 200, json_body = Inl JSONDecodeError, xml_body = Inl ParseError\<rparr>"

definition bad_payload :: transport where
  "bad_payload n u ps = Inr bad_response"

text \<open>A service that answers the first request, a search, and fails afterwards.\<close>

definition search_response :: response where
  "search_response =
     \<lparr>status_code = 200,
      json_body = Inr (JObj [(''esearchresult'',
        JObj [(''count'', JStr ''42''), (''idlist'', JArr [JStr ''101'', JStr ''102''])])]),
      xml_body = Inl ParseError\<rparr>"

definition fetch_down :: transport where
  "fetch_down n u ps = (if n = 0 then Inr search_response else Inl ConnectionError)"

text \<open>
  Vocabulary for the parser properties: the path has no match in the node, or its first
  match has no text or empty text.
\<close>

definition absent_or_empty :: "xml \<Rightarrow> path \<Rightarrow> bool" where
  "absent_or_empty element p = (findtext element p = None \<or> findtext element p = Some [])"

text \<open>An element with text and no children, and one with children only.\<close>

definition leaf :: "string \<Rightarrow> string \<Rightarrow> xml" where
  "leaf tg tx = Element tg [] (Some tx) []"

definition node :: "string \<Rightarrow> xml list \<Rightarrow> xml" where
  "node tg cs = Element tg [] None cs"

text \<open>An article node without any content, and a document that holds only this node.\<close>

definition bare_article :: xml where
  "bare_article = node ''PubmedArticle'' []"

definition bare_document :: xml where
  "bare_document = node ''PubmedArticleSet'' [bare_article]"

text \<open>
  An article node with an identifier, a title, a journal with volume and year and one
  author, and with no issue, no pagination and no DOI; a document that holds it and a
  service that answers every request with this document.
\<close>

definition sparse_article :: xml where
  "sparse_article =
     node ''PubmedArticle''
       [node ''MedlineCitation''
          [leaf ''PMID'' ''101'',
           node ''Article''
             [node ''Journal''
                [node ''JournalIssue''
                   [leaf ''Volume'' ''12'', node ''PubDate'' [leaf ''Year'' ''2020'']],
                 leaf ''Title'' ''Gut''],
              leaf ''ArticleTitle'' ''On bile'',
              node ''AuthorList''
                [node ''Author'' [leaf ''LastName'' ''Smith'', leaf ''Initials'' ''J'']]]]]"

definition sparse_document :: xml where
  "sparse_document = node ''PubmedArticleSet'' [sparse_article]"

definition sparse_service :: transport where
  "sparse_service n u ps =
     Inr \<lparr>status_code = 200, json_body = Inl JSONDecodeError, xml_body = Inr sparse_document\<rparr>"

text \<open>Records with a given number of authors.\<close>

definition author :: "string \<Rightarrow> string \<Rightarrow> author_entry" where
  "author ln ini =
     \<lparr>lastname = Some ln, forename = Some '''', initials = Some ini,
      full_name = Some (ln @ '' '' @ ini)\<rparr>"

definition paper_by :: "author_entry list \<Rightarrow> article" where
  "paper_by as =
     \<lparr>id_key = Some ''7'', url = Some (ARTICLE_VIEW_BASE @ ''/7''), title = Some ''T'',
      journal = Some \<lparr>name = Some ''J'', volume = Some ''1'', issue = Some ''2'',
                      pages = Some ''3-4''\<rparr>,
      publication_date = Some ''2020'', doi = Some ''10.1/x'', abstract = Some ''N/A'',
      authors = Some as, keywords = Some [], citation = None\<rparr>"

definition eight_authors :: "author_entry list" where
  "eight_authors =
     [author ''A'' ''a'', author ''B'' ''b'', author ''C'' ''c'', author ''D'' ''d'',
      author ''E'' ''e'', author ''F'' ''f'', author ''G'' ''g'', author ''H'' ''h'']"

text \<open>
  Vocabulary for the statistics properties. \<open>counted v\<close> is the value that one counting
  step counts, if any; \<open>journal_names\<close> and \<open>observed_years\<close> are the journal names and
  the years that the loop counts, in the order of the sample; \<open>count_names\<close> counts a list
  of names one after the other; \<open>first_seen xs x\<close> is the position of the first occurrence
  of \<open>x\<close> in \<open>xs\<close>.
\<close>

definition counted :: "string option \<Rightarrow> string list" where
  "counted v = (if truthy_opt v \<and> the v \<noteq> NA then [the v] else [])"

definition journal_names :: "article list \<Rightarrow> string list" where
  "journal_names articles =
     concat (map (\<lambda>a. counted (name (get_default (journal a) no_journal))) articles)"

definition observed_years :: "article list \<Rightarrow> string list" where
  "observed_years articles = concat (map (\<lambda>a. counted (publication_date a)) articles)"

definition count_names :: "string list \<Rightarrow> (string \<times> int) list \<Rightarrow> (string \<times> int) list" where
  "count_names ns d = fold (\<lambda>n. count_key (Some n)) ns d"

definition first_seen :: "'a list \<Rightarrow> 'a \<Rightarrow> nat" where
  "first_seen xs x = length (takeWhile (\<lambda>y. y \<noteq> x) xs)"

text \<open>
  An article node that has a journal title and a year of publication (either may be
  empty) and nothing else; a service that answers the first request, a search, with two
  identifiers and every later request with a given document.
\<close>

definition entry :: "string \<Rightarrow> string \<Rightarrow> xml" where
  "entry j y =
     node ''PubmedArticle''
       [node ''Journal''
          [node ''JournalIssue'' [node ''PubDate'' [leaf ''Year'' y]], leaf ''Title'' j]]"

definition library :: "xml \<Rightarrow> transport" where
  "library doc n u ps =
     (if n = 0 then Inr search_response
      else Inr \<lparr>status_code = 200, json_body = Inl JSONDecodeError, xml_body = Inr doc\<rparr>)"

text \<open>
  A document with nine articles: two of them lack the journal title or the year, two
  journals occur twice and four once. A document with three articles of the years 2021,
  2019 and 2023.
\<close>

definition shelf :: xml where
  "shelf =
     node ''PubmedArticleSet''
       [entry ''B'' ''2021'', entry ''A'' ''2019'', entry ''B'' ''2023'', entry ''C'' '''',
        entry ''A'' ''2021'', entry '''' ''2021'', entry ''D'' ''2019'', entry ''E'' ''2021'',
        entry ''F'' ''2021'']"

definition three_years :: xml where
  "three_years =
     node ''PubmedArticleSet'' [entry ''J'' ''2021'', entry ''J'' ''2019'', entry ''K'' ''2023'']"

section \<open>Properties of the retry loop\<close>

lemmas run_strip =
  strip_def int_strip_def rstrip_def lstrip.simps ascii_spaces_def separator_controls_def
  unicode_spaces_def

lemma retry_loop_exhausted:
  "retries \<le> attempt \<Longrightarrow> retry_loop t u ps retries attempt w = (Inr None, w)"
  by (simp add: retry_loop.simps)

lemma after_failures_0: "after_failures u ps 0 w = w"
  by (simp add: after_failures_def)

lemma after_failures_Suc:
  "after_failures u ps k (log WARNING (sleep RETRY_DELAY (send_request u ps w)))
     = after_failures u ps (Suc k) w"
  by (simp add: after_failures_def log_def sleep_def send_request_def replicate_app_Cons_same)

lemma sent_after_failures:
  "sent (after_failures u ps k w) = sent w @ replicate k (u, ps)"
  by (simp add: after_failures_def)

lemma retry_loop_skip:
  "attempt + int k < retries \<Longrightarrow>
   (\<forall>i<k. transient t (length (sent w) + i) u ps) \<Longrightarrow>
   retry_loop t u ps retries attempt w =
     retry_loop t u ps retries (attempt + int k) (after_failures u ps k w)"
proof (induction k arbitrary: attempt w)
  case 0
  then show ?case by (simp add: after_failures_0)
next
  case (Suc k)
  let ?w1 = "log WARNING (sleep RETRY_DELAY (send_request u ps w))"
  from Suc.prems(2) have "transient t (length (sent w)) u ps" by force
  then obtain e where e: "try_get t (length (sent w)) u ps = Inl e" "is_RequestException e"
    by (auto simp: transient_def split: sum.splits)
  have len: "length (sent ?w1) = Suc (length (sent w))"
    by (simp add: log_def sleep_def send_request_def)
  have step: "retry_loop t u ps retries attempt w = retry_loop t u ps retries (attempt + 1) ?w1"
    using Suc.prems(1) e by (subst retry_loop.simps) simp
  have all: "\<forall>i<k. transient t (length (sent ?w1) + i) u ps"
    using Suc.prems(2) len by (metis Suc_less_eq add_Suc_shift)
  have lt: "(attempt + 1) + int k < retries" using Suc.prems(1) by simp
  from lt all have "retry_loop t u ps retries (attempt + 1) ?w1 =
      retry_loop t u ps retries (attempt + 1 + int k) (after_failures u ps k ?w1)"
    by (rule Suc.IH)
  with step show ?case
    by (simp add: after_failures_Suc add.assoc)
qed

lemma retry_loop_succeeds:
  assumes "attempt + int k < retries"
    and "\<forall>i<k. transient t (length (sent w) + i) u ps"
    and "try_get t (length (sent w) + k) u ps = Inr r"
  shows "retry_loop t u ps retries attempt w =
           (Inr (Some r), send_request u ps (after_failures u ps k w))"
proof -
  have "retry_loop t u ps retries attempt w =
          retry_loop t u ps retries (attempt + int k) (after_failures u ps k w)"
    using assms(1,2) by (rule retry_loop_skip)
  also have "\<dots> = (Inr (Some r), send_request u ps (after_failures u ps k w))"
    using assms(1,3) by (subst retry_loop.simps) (simp add: sent_after_failures)
  finally show ?thesis .
qed

lemma retry_loop_gives_up:
  assumes "attempt + int k + 1 = retries"
    and "\<forall>i<k. transient t (length (sent w) + i) u ps"
    and "try_get t (length (sent w) + k) u ps = Inl e"
    and "is_RequestException e"
  shows "retry_loop t u ps retries attempt w =
           (Inl e, log ERROR (send_request u ps (after_failures u ps k w)))"
proof -
  from assms(1) have lt: "attempt + int k < retries" by simp
  have "retry_loop t u ps retries attempt w =
          retry_loop t u ps retries (attempt + int k) (after_failures u ps k w)"
    using lt assms(2) by (rule retry_loop_skip)
  also have "\<dots> = (Inl e, log ERROR (send_request u ps (after_failures u ps k w)))"
    using assms(1,3,4) lt by (subst retry_loop.simps) (simp add: sent_after_failures)
  finally show ?thesis .
qed

text \<open>
  Claim C9. When \<open>make_api_request\<close> is called with \<open>retries \<le> 0\<close> the loop body never
  runs: no request is sent, nothing is slept or logged (the world is unchanged), no
  exception is raised, and the function falls off its end and returns \<open>None\<close> rather than
  a response.
\<close>

theorem make_api_request_no_retries:
  "retries \<le> 0 \<Longrightarrow> make_api_request t endpoint ps retries w = (Inr None, w)"
  unfolding make_api_request_def by (rule retry_loop_exhausted)

theorem make_api_request_no_retries_witness:
  "(0::int) \<le> 0 \<and>
   make_api_request always_failing ''esearch.fcgi'' [] 0 world0 = (Inr None, world0) \<and>
   make_api_request failing_twice ''esearch.fcgi'' [] (- 1) world0 = (Inr None, world0)"
  using make_api_request_no_retries [of 0 always_failing "''esearch.fcgi''" "[]" world0]
    make_api_request_no_retries [of "- 1" failing_twice "''esearch.fcgi''" "[]" world0]
  by simp

text \<open>
  Claim C2. With the default \<open>retries = RETRY_ATTEMPTS = 3\<close>: if every attempt fails with
  a transport failure, \<open>make_api_request\<close> sends exactly 3 requests and the failure of the
  last attempt leaves the function; if the first \<open>k - 1\<close> attempts fail and the \<open>k\<close>-th
  succeeds, for \<open>1 \<le> k \<le> 3\<close>, it sends exactly \<open>k\<close> requests and returns the response of
  the \<open>k\<close>-th attempt.
\<close>

theorem make_api_request_retry:
  fixes t :: transport and endpoint :: string and ps :: params and w :: world
  defines "u \<equiv> NCBI_API_BASE @ ''/'' @ endpoint"
  defines "n \<equiv> length (sent w)"
  shows "RETRY_ATTEMPTS = 3 \<and>
    ((\<forall>i<3. transient t (n + i) u ps) \<longrightarrow>
       (\<exists>e w'. make_api_request t endpoint ps RETRY_ATTEMPTS w = (Inl e, w') \<and>
          try_get t (n + 2) u ps = Inl e \<and>
          w' = log ERROR (send_request u ps (after_failures u ps 2 w)) \<and>
          sent w' = sent w @ replicate 3 (u, ps))) \<and>
    (\<forall>k r. 1 \<le> k \<and> int k \<le> RETRY_ATTEMPTS \<and>
        (\<forall>i<k - 1. transient t (n + i) u ps) \<and>
        try_get t (n + (k - 1)) u ps = Inr r \<longrightarrow>
       (\<exists>w'. make_api_request t endpoint ps RETRY_ATTEMPTS w = (Inr (Some r), w') \<and>
          w' = send_request u ps (after_failures u ps (k - 1) w) \<and>
          sent w' = sent w @ replicate k (u, ps)))"
proof (intro conjI impI allI)
  show "RETRY_ATTEMPTS = 3" by (simp add: RETRY_ATTEMPTS_def)
next
  assume all: "\<forall>i<3. transient t (n + i) u ps"
  then have "transient t (n + 2) u ps" by (rule allE [of _ 2]) simp
  then obtain e where e: "try_get t (n + 2) u ps = Inl e" "is_RequestException e"
    by (auto simp: transient_def split: sum.splits)
  from all have two: "\<forall>i<2. transient t (length (sent w) + i) u ps"
    by (simp add: n_def)
  have "retry_loop t u ps RETRY_ATTEMPTS 0 w =
          (Inl e, log ERROR (send_request u ps (after_failures u ps 2 w)))"
    using _ two e(1)[unfolded n_def] e(2)
    by (rule retry_loop_gives_up) (simp add: RETRY_ATTEMPTS_def)
  moreover have "sent (log ERROR (send_request u ps (after_failures u ps 2 w)))
      = sent w @ replicate 3 (u, ps)"
    by (simp add: log_def send_request_def after_failures_def numeral_3_eq_3 numeral_2_eq_2)
  ultimately show "\<exists>e w'. make_api_request t endpoint ps RETRY_ATTEMPTS w = (Inl e, w') \<and>
          try_get t (n + 2) u ps = Inl e \<and>
          w' = log ERROR (send_request u ps (after_failures u ps 2 w)) \<and>
          sent w' = sent w @ replicate 3 (u, ps)"
    using e(1) by (simp add: make_api_request_def u_def)
next
  fix k r
  assume h: "1 \<le> k \<and> int k \<le> RETRY_ATTEMPTS \<and>
        (\<forall>i<k - 1. transient t (n + i) u ps) \<and>
        try_get t (n + (k - 1)) u ps = Inr r"
  then have lt: "0 + int (k - 1) < RETRY_ATTEMPTS" by linarith
  from h have fails: "\<forall>i<k - 1. transient t (length (sent w) + i) u ps"
    and ok: "try_get t (length (sent w) + (k - 1)) u ps = Inr r"
    unfolding n_def by blast+
  have "retry_loop t u ps RETRY_ATTEMPTS 0 w =
          (Inr (Some r), send_request u ps (after_failures u ps (k - 1) w))"
    using lt fails ok by (rule retry_loop_succeeds)
  moreover have "sent (send_request u ps (after_failures u ps (k - 1) w))
      = sent w @ replicate k (u, ps)"
  proof -
    from h obtain j where "k = Suc j" by (cases k) auto
    then show ?thesis
      by (simp add: send_request_def after_failures_def replicate_append_same)
  qed
  ultimately show "\<exists>w'. make_api_request t endpoint ps RETRY_ATTEMPTS w = (Inr (Some r), w') \<and>
          w' = send_request u ps (after_failures u ps (k - 1) w) \<and>
          sent w' = sent w @ replicate k (u, ps)"
    by (simp add: make_api_request_def u_def)
qed

theorem make_api_request_retry_witness:
  "transient always_failing 0 (NCBI_API_BASE @ ''/'' @ ''esearch.fcgi'') [] \<and>
   transient always_failing 1 (NCBI_API_BASE @ ''/'' @ ''esearch.fcgi'') [] \<and>
   transient always_failing 2 (NCBI_API_BASE @ ''/'' @ ''esearch.fcgi'') [] \<and>
   make_api_request always_failing ''esearch.fcgi'' [] RETRY_ATTEMPTS world0 =
     (Inl ConnectionError,
      \<lparr>sent = replicate 3 (NCBI_API_BASE @ ''/'' @ ''esearch.fcgi'', []), slept = 2,
       logged = [WARNING, WARNING, ERROR]\<rparr>) \<and>
   transient failing_twice 0 (NCBI_API_BASE @ ''/'' @ ''esearch.fcgi'') [] \<and>
   transient failing_twice 1 (NCBI_API_BASE @ ''/'' @ ''esearch.fcgi'') [] \<and>
   try_get failing_twice 2 (NCBI_API_BASE @ ''/'' @ ''esearch.fcgi'') [] = Inr ok_response \<and>
   make_api_request failing_twice ''esearch.fcgi'' [] RETRY_ATTEMPTS world0 =
     (Inr (Some ok_response),
      \<lparr>sent = replicate 3 (NCBI_API_BASE @ ''/'' @ ''esearch.fcgi'', []), slept = 2,
       logged = [WARNING, WARNING]\<rparr>)"
proof -
  let ?url = "NCBI_API_BASE @ ''/'' @ ''esearch.fcgi''"
  have a0: "\<And>i. transient always_failing i ?url []"
    by (simp add: transient_def try_get_def always_failing_def)
  then have a: "\<forall>i<3. transient always_failing (length (sent world0) + i) ?url []"
    by blast
  have f0: "transient failing_twice 0 ?url []" and f1: "transient failing_twice 1 ?url []"
    and f2: "try_get failing_twice 2 ?url [] = Inr ok_response"
    by (simp_all add: transient_def try_get_def failing_twice_def
        raise_for_status_def ok_response_def)
  have b: "1 \<le> (3::nat) \<and> int 3 \<le> RETRY_ATTEMPTS \<and>
    (\<forall>i<3 - 1. transient failing_twice (length (sent world0) + i) ?url []) \<and>
    try_get failing_twice (length (sent world0) + (3 - 1)) ?url [] = Inr ok_response"
    using f0 f1 f2 by (simp add: world0_def RETRY_ATTEMPTS_def less_Suc_eq numeral_2_eq_2)
  have c: "try_get always_failing (length (sent world0) + 2) ?url [] = Inl ConnectionError"
    by (simp add: try_get_def always_failing_def)
  have w1: "log ERROR (send_request ?url [] (after_failures ?url [] 2 world0)) =
      \<lparr>sent = replicate 3 (?url, []), slept = 2, logged = [WARNING, WARNING, ERROR]\<rparr>"
    by (simp add: log_def send_request_def after_failures_def world0_def RETRY_DELAY_def
        numeral_2_eq_2 numeral_3_eq_3)
  have w2: "send_request ?url [] (after_failures ?url [] (3 - 1) world0) =
      \<lparr>sent = replicate 3 (?url, []), slept = 2, logged = [WARNING, WARNING]\<rparr>"
    by (simp add: send_request_def after_failures_def world0_def RETRY_DELAY_def
        numeral_2_eq_2 numeral_3_eq_3)
  from make_api_request_retry [of always_failing world0 "''esearch.fcgi''" "[]"] a c w1
  have d: "make_api_request always_failing ''esearch.fcgi'' [] RETRY_ATTEMPTS world0 =
     (Inl ConnectionError,
      \<lparr>sent = replicate 3 (?url, []), slept = 2, logged = [WARNING, WARNING, ERROR]\<rparr>)"
    by auto
  note make_api_request_retry [of failing_twice world0 "''esearch.fcgi''" "[]",
      THEN conjunct2, THEN conjunct2, THEN spec, THEN spec, THEN mp, OF b]
  then obtain w' where m: "make_api_request failing_twice ''esearch.fcgi'' [] RETRY_ATTEMPTS world0 =
       (Inr (Some ok_response), w')"
    and w': "w' = send_request ?url [] (after_failures ?url [] (3 - 1) world0)"
    by blast
  have e: "make_api_request failing_twice ''esearch.fcgi'' [] RETRY_ATTEMPTS world0 =
     (Inr (Some ok_response),
      \<lparr>sent = replicate 3 (?url, []), slept = 2, logged = [WARNING, WARNING]\<rparr>)"
    by (simp only: m w' w2)
  from a0 f0 f1 f2 d e show ?thesis by blast
qed

section \<open>Properties of the search and of \<open>find_articles\<close>\<close>

text \<open>
  Claim C1. \<open>retrieve_article_ids\<close> returns \<open>([], 0)\<close> for the empty query and leaves the
  world as it is (no request is sent). For every query it returns a pair and never an
  exception; when the search request raises, or when reading its response raises, the
  exception is caught and the result is \<open>([], 0)\<close>, with an error logged.
\<close>

theorem retrieve_article_ids_fail_soft:
  "retrieve_article_ids t [] max_count w = (Inr (JArr [], 0), w) \<and>
   (\<exists>ids total_count w'. retrieve_article_ids t q max_count w = (Inr (ids, total_count), w')) \<and>
   (\<forall>e w1. q \<noteq> [] \<and>
        make_api_request t ''esearch.fcgi'' (search_params q max_count) RETRY_ATTEMPTS
          (log INFO w) = (Inl e, w1) \<longrightarrow>
      retrieve_article_ids t q max_count w = (Inr (JArr [], 0), log ERROR w1)) \<and>
   (\<forall>resp e w1. q \<noteq> [] \<and>
        make_api_request t ''esearch.fcgi'' (search_params q max_count) RETRY_ATTEMPTS
          (log INFO w) = (Inr resp, w1) \<and>
        read_search_result resp = Inl e \<longrightarrow>
      retrieve_article_ids t q max_count w = (Inr (JArr [], 0), log ERROR w1))"
proof (intro conjI allI impI)
  show "retrieve_article_ids t [] max_count w = (Inr (JArr [], 0), w)"
    by (simp add: retrieve_article_ids_def)
next
  show "\<exists>ids total_count w'. retrieve_article_ids t q max_count w = (Inr (ids, total_count), w')"
    by (simp add: retrieve_article_ids_def split: prod.split sum.split)
next
  fix e w1
  assume "q \<noteq> [] \<and>
        make_api_request t ''esearch.fcgi'' (search_params q max_count) RETRY_ATTEMPTS
          (log INFO w) = (Inl e, w1)"
  then show "retrieve_article_ids t q max_count w = (Inr (JArr [], 0), log ERROR w1)"
    by (simp add: retrieve_article_ids_def)
next
  fix resp e w1
  assume "q \<noteq> [] \<and>
        make_api_request t ''esearch.fcgi'' (search_params q max_count) RETRY_ATTEMPTS
          (log INFO w) = (Inr resp, w1) \<and>
        read_search_result resp = Inl e"
  then show "retrieve_article_ids t q max_count w = (Inr (JArr [], 0), log ERROR w1)"
    by (simp add: retrieve_article_ids_def)
qed

lemmas run_request =
  make_api_request_def retry_loop.simps RETRY_ATTEMPTS_def RETRY_DELAY_def try_get_def
  raise_for_status_def log_def sleep_def send_request_def world0_def

theorem retrieve_article_ids_fail_soft_witness:
  "retrieve_article_ids always_failing [] 15 world0 = (Inr (JArr [], 0), world0) \<and>
   make_api_request always_failing ''esearch.fcgi'' (search_params ''cancer'' 15)
     RETRY_ATTEMPTS (log INFO world0) =
     (Inl ConnectionError,
      \<lparr>sent = replicate 3 (NCBI_API_BASE @ ''/esearch.fcgi'', search_params ''cancer'' 15),
       slept = 2, logged = [INFO, WARNING, WARNING, ERROR]\<rparr>) \<and>
   retrieve_article_ids always_failing ''cancer'' 15 world0 =
     (Inr (JArr [], 0),
      \<lparr>sent = replicate 3 (NCBI_API_BASE @ ''/esearch.fcgi'', search_params ''cancer'' 15),
       slept = 2, logged = [INFO, WARNING, WARNING, ERROR, ERROR]\<rparr>) \<and>
   make_api_request bad_payload ''esearch.fcgi'' (search_params ''cancer'' 15)
     RETRY_ATTEMPTS (log INFO world0) =
     (Inr (Some bad_response),
      \<lparr>sent = [(NCBI_API_BASE @ ''/esearch.fcgi'', search_params ''cancer'' 15)],
       slept = 0, logged = [INFO]\<rparr>) \<and>
   read_search_result (Some bad_response) = Inl JSONDecodeError \<and>
   retrieve_article_ids bad_payload ''cancer'' 15 world0 =
     (Inr (JArr [], 0),
      \<lparr>sent = [(NCBI_API_BASE @ ''/esearch.fcgi'', search_params ''cancer'' 15)],
       slept = 0, logged = [INFO, ERROR]\<rparr>)"
proof -
  let ?W1 = "\<lparr>sent = replicate 3 (NCBI_API_BASE @ ''/esearch.fcgi'', search_params ''cancer'' 15),
       slept = 2, logged = [INFO, WARNING, WARNING, ERROR]\<rparr>"
  let ?W2 = "\<lparr>sent = [(NCBI_API_BASE @ ''/esearch.fcgi'', search_params ''cancer'' 15)],
       slept = 0, logged = [INFO]\<rparr>"
  have down: "make_api_request always_failing ''esearch.fcgi'' (search_params ''cancer'' 15)
     RETRY_ATTEMPTS (log INFO world0) = (Inl ConnectionError, ?W1)"
    by (simp add: run_request always_failing_def numeral_3_eq_3)
  have bad: "make_api_request bad_payload ''esearch.fcgi'' (search_params ''cancer'' 15)
     RETRY_ATTEMPTS (log INFO world0) = (Inr (Some bad_response), ?W2)"
    by (simp add: run_request bad_payload_def bad_response_def)
  have unread: "read_search_result (Some bad_response) = Inl JSONDecodeError"
    by (simp add: read_search_result_def bad_response_def)
  note thm1 = retrieve_article_ids_fail_soft [of always_failing 15 world0 "''cancer''"]
  note thm2 = retrieve_article_ids_fail_soft [of bad_payload 15 world0 "''cancer''"]
  have r0: "retrieve_article_ids always_failing [] 15 world0 = (Inr (JArr [], 0), world0)"
    using thm1 by blast
  have "retrieve_article_ids always_failing ''cancer'' 15 world0 = (Inr (JArr [], 0), log ERROR ?W1)"
    using thm1 down by blast
  then have r1: "retrieve_article_ids always_failing ''cancer'' 15 world0 =
     (Inr (JArr [], 0),
      \<lparr>sent = replicate 3 (NCBI_API_BASE @ ''/esearch.fcgi'', search_params ''cancer'' 15),
       slept = 2, logged = [INFO, WARNING, WARNING, ERROR, ERROR]\<rparr>)"
    by (simp add: log_def)
  have "retrieve_article_ids bad_payload ''cancer'' 15 world0 = (Inr (JArr [], 0), log ERROR ?W2)"
    using thm2 bad unread by blast
  then have r2: "retrieve_article_ids bad_payload ''cancer'' 15 world0 =
     (Inr (JArr [], 0),
      \<lparr>sent = [(NCBI_API_BASE @ ''/esearch.fcgi'', search_params ''cancer'' 15)],
       slept = 0, logged = [INFO, ERROR]\<rparr>)"
    by (simp add: log_def)
  from r0 down r1 bad unread r2 show ?thesis by blast
qed

lemma create_author_clause_empty: "create_author_clause names = [] \<longleftrightarrow> names = []"
  by (simp add: create_author_clause_def)

lemma create_keyword_clause_empty: "create_keyword_clause terms = [] \<longleftrightarrow> terms = []"
  by (simp add: create_keyword_clause_def)

text \<open>
  Claim C3. When both clauses are empty, which is exactly when both lists are empty,
  \<open>find_articles\<close> returns the validation envelope and leaves the world as it is: no
  request is sent.
\<close>

theorem find_articles_requires_criteria:
  "((create_author_clause researchers = [] \<and> create_keyword_clause topics = []) \<longrightarrow>
      find_articles t topics researchers result_limit w =
        ([(''status'', EStr ''error''),
          (''message'', EStr ''Search requires at least one topic or researcher name''),
          (''articles'', EArticles [])], w)) \<and>
   ((create_author_clause researchers = [] \<and> create_keyword_clause topics = []) \<longleftrightarrow>
      (researchers = [] \<and> topics = [])) \<and>
   find_articles t [] [] result_limit w =
     ([(''status'', EStr ''error''),
       (''message'', EStr ''Search requires at least one topic or researcher name''),
       (''articles'', EArticles [])], w)"
  by (simp add: find_articles_def combine_clauses_def create_author_clause_empty
      create_keyword_clause_empty)

theorem find_articles_requires_criteria_witness:
  "create_author_clause [] = [] \<and> create_keyword_clause [] = [] \<and>
   find_articles always_failing [] [] 15 world0 =
     ([(''status'', EStr ''error''),
       (''message'', EStr ''Search requires at least one topic or researcher name''),
       (''articles'', EArticles [])], world0)"
  using find_articles_requires_criteria [of "[]" "[]" always_failing 15 world0]
  by (simp add: create_author_clause_def create_keyword_clause_def)

text \<open>
  Claim C10. When the search of \<open>find_articles\<close> yields a non-empty identifier list and
  the fetch of the metadata then fails, that is \<open>fetch_article_metadata\<close> returns
  \<open>None\<close>, the result is a success envelope with no articles, \<open>retrieved = 0\<close> and
  \<open>total_available\<close> the total count that the search reported.
\<close>

theorem find_articles_fetch_failure:
  assumes "retrieve_article_ids t
             (combine_clauses [create_author_clause researchers, create_keyword_clause topics])
             result_limit w = (Inr (ids, total_count), w1)"
    and "truthy ids"
    and "fetch_article_metadata t ids w1 = (Inr None, w2)"
  shows "find_articles t topics researchers result_limit w =
     ([(''status'', EStr ''success''),
       (''message'', EStr (''Found '' @ str_int total_count @ '' articles, returning 0'')),
       (''total_available'', EInt total_count),
       (''retrieved'', EInt 0),
       (''performance'', EPerformance),
       (''articles'', EArticles [])], w2)"
proof -
  let ?query = "combine_clauses [create_author_clause researchers, create_keyword_clause topics]"
  have "?query \<noteq> []"
  proof
    assume "?query = []"
    then have "retrieve_article_ids t ?query result_limit w = (Inr (JArr [], 0), w)"
      by (simp add: retrieve_article_ids_def)
    with assms(1) have "ids = JArr []" by simp
    with assms(2) show False by simp
  qed
  moreover have "str_int 0 = ''0''"
    by (simp add: str_int_def str_nat.simps digit_char_def)
  ultimately show ?thesis
    using assms by (simp add: find_articles_def Let_def process_articles_def)
qed

theorem find_articles_fetch_failure_witness:
  "retrieve_article_ids fetch_down
     (combine_clauses [create_author_clause [], create_keyword_clause [''cancer'']]) 15 world0 =
     (Inr (JArr [JStr ''101'', JStr ''102''], 42),
      \<lparr>sent = [(NCBI_API_BASE @ ''/esearch.fcgi'', search_params ''(cancer[Title/Abstract])'' 15)],
       slept = 0, logged = [INFO, INFO]\<rparr>) \<and>
   truthy (JArr [JStr ''101'', JStr ''102'']) \<and>
   fetch_article_metadata fetch_down (JArr [JStr ''101'', JStr ''102''])
     \<lparr>sent = [(NCBI_API_BASE @ ''/esearch.fcgi'', search_params ''(cancer[Title/Abstract])'' 15)],
      slept = 0, logged = [INFO, INFO]\<rparr> =
     (Inr None,
      \<lparr>sent = [(NCBI_API_BASE @ ''/esearch.fcgi'', search_params ''(cancer[Title/Abstract])'' 15),
               (NCBI_API_BASE @ ''/efetch.fcgi'', fetch_params ''101,102''),
               (NCBI_API_BASE @ ''/efetch.fcgi'', fetch_params ''101,102''),
               (NCBI_API_BASE @ ''/efetch.fcgi'', fetch_params ''101,102'')],
       slept = 2, logged = [INFO, INFO, WARNING, WARNING, ERROR, ERROR]\<rparr>) \<and>
   find_articles fetch_down [''cancer''] [] 15 world0 =
     ([(''status'', EStr ''success''),
       (''message'', EStr ''Found 42 articles, returning 0''),
       (''total_available'', EInt 42),
       (''retrieved'', EInt 0),
       (''performance'', EPerformance),
       (''articles'', EArticles [])],
      \<lparr>sent = [(NCBI_API_BASE @ ''/esearch.fcgi'', search_params ''(cancer[Title/Abstract])'' 15),
               (NCBI_API_BASE @ ''/efetch.fcgi'', fetch_params ''101,102''),
               (NCBI_API_BASE @ ''/efetch.fcgi'', fetch_params ''101,102''),
               (NCBI_API_BASE @ ''/efetch.fcgi'', fetch_params ''101,102'')],
       slept = 2, logged = [INFO, INFO, WARNING, WARNING, ERROR, ERROR]\<rparr>)"
proof -
  let ?W1 = "\<lparr>sent = [(NCBI_API_BASE @ ''/esearch.fcgi'', search_params ''(cancer[Title/Abstract])'' 15)],
       slept = 0, logged = [INFO, INFO]\<rparr>"
  let ?W2 = "\<lparr>sent = [(NCBI_API_BASE @ ''/esearch.fcgi'', search_params ''(cancer[Title/Abstract])'' 15),
               (NCBI_API_BASE @ ''/efetch.fcgi'', fetch_params ''101,102''),
               (NCBI_API_BASE @ ''/efetch.fcgi'', fetch_params ''101,102''),
               (NCBI_API_BASE @ ''/efetch.fcgi'', fetch_params ''101,102'')],
       slept = 2, logged = [INFO, INFO, WARNING, WARNING, ERROR, ERROR]\<rparr>"
  have a: "retrieve_article_ids fetch_down
     (combine_clauses [create_author_clause [], create_keyword_clause [''cancer'']]) 15 world0 =
     (Inr (JArr [JStr ''101'', JStr ''102''], 42), ?W1)"
    by (simp add: retrieve_article_ids_def run_request fetch_down_def search_response_def
        read_search_result_def combine_clauses_def create_author_clause_def
        create_keyword_clause_def run_strip unsigned_value_def is_digit_def
        digit_value_def MAX_STR_DIGITS_def)
  have b: "truthy (JArr [JStr ''101'', JStr ''102''])" by simp
  have c: "fetch_article_metadata fetch_down (JArr [JStr ''101'', JStr ''102'']) ?W1 =
     (Inr None, ?W2)"
    by (simp add: fetch_article_metadata_def run_request fetch_down_def read_document_def)
  have d: "str_int 42 = ''42''"
    by (simp add: str_int_def str_nat.simps digit_char_def)
  from find_articles_fetch_failure [OF a b c] d a b c show ?thesis by simp
qed

section \<open>Properties of the parser and of the citation\<close>

lemma extract_text_default:
  "absent_or_empty e p \<Longrightarrow> extract_text e p dflt = dflt"
  by (auto simp: absent_or_empty_def extract_text_def)

lemma extract_text_present:
  "findtext e p = Some s \<Longrightarrow> s \<noteq> [] \<Longrightarrow> extract_text e p dflt = s"
  by (simp add: extract_text_def)

lemma article_data_populated:
  "id_key (article_data art) \<noteq> None \<and> url (article_data art) \<noteq> None \<and>
   title (article_data art) \<noteq> None \<and> publication_date (article_data art) \<noteq> None \<and>
   doi (article_data art) \<noteq> None \<and> abstract (article_data art) \<noteq> None \<and>
   authors (article_data art) \<noteq> None \<and> keywords (article_data art) \<noteq> None \<and>
   (\<exists>j. journal (article_data art) = Some j \<and> name j \<noteq> None \<and> volume j \<noteq> None \<and>
        issue j \<noteq> None \<and> pages j \<noteq> None)"
  by (simp add: article_data_def Let_def)

text \<open>
  Claim C4. Every record that \<open>process_articles\<close> produces has all its keys: id, url,
  title, journal with name, volume, issue and pages, publication date, doi, abstract,
  authors and keywords. The records are those of the article nodes, in document order.
  \<open>extract_text\<close> returns its default when the path is absent or empty, so a scalar
  field whose path is absent or empty holds "N/A"; the authors and the keywords are the
  empty list when the node has no such elements.
\<close>

theorem process_articles_fully_populated:
  "(\<forall>r \<in> set (process_articles root_element).
      id_key r \<noteq> None \<and> url r \<noteq> None \<and> title r \<noteq> None \<and> publication_date r \<noteq> None \<and>
      doi r \<noteq> None \<and> abstract r \<noteq> None \<and> authors r \<noteq> None \<and> keywords r \<noteq> None \<and>
      (\<exists>j. journal r = Some j \<and> name j \<noteq> None \<and> volume j \<noteq> None \<and>
           issue j \<noteq> None \<and> pages j \<noteq> None)) \<and>
   process_articles (Some root) =
     map article_data (findall root [Self, Descendant ''PubmedArticle'']) \<and>
   (absent_or_empty e p \<longrightarrow> extract_text e p dflt = dflt) \<and>
   (absent_or_empty art [Self, Descendant ''PMID''] \<longrightarrow>
      id_key (article_data art) = Some ''N/A'') \<and>
   (absent_or_empty art [Self, Descendant ''ArticleTitle''] \<longrightarrow>
      title (article_data art) = Some ''N/A'') \<and>
   (absent_or_empty art [Self, Descendant ''Journal'', Child ''Title''] \<longrightarrow>
      Option.bind (journal (article_data art)) name = Some ''N/A'') \<and>
   (absent_or_empty art [Self, Descendant ''Journal'', Child ''JournalIssue'', Child ''Volume''] \<longrightarrow>
      Option.bind (journal (article_data art)) volume = Some ''N/A'') \<and>
   (absent_or_empty art [Self, Descendant ''Journal'', Child ''JournalIssue'', Child ''Issue''] \<longrightarrow>
      Option.bind (journal (article_data art)) issue = Some ''N/A'') \<and>
   (absent_or_empty art [Self, Descendant ''Pagination'', Child ''MedlinePgn''] \<longrightarrow>
      Option.bind (journal (article_data art)) pages = Some ''N/A'') \<and>
   (absent_or_empty art [Self, Descendant ''PubDate'', Child ''Year''] \<longrightarrow>
      publication_date (article_data art) = Some ''N/A'') \<and>
   (absent_or_empty art [Self, Descendant ''ELocationID'', AttrIs ''EIdType'' ''doi''] \<longrightarrow>
      doi (article_data art) = Some ''N/A'') \<and>
   (absent_or_empty art [Self, Descendant ''Abstract'', Child ''AbstractText''] \<longrightarrow>
      abstract (article_data art) = Some ''N/A'') \<and>
   (findall art [Self, Descendant ''Author''] = [] \<longrightarrow> authors (article_data art) = Some []) \<and>
   (findall art [Self, Descendant ''Keyword''] = [] \<longrightarrow> keywords (article_data art) = Some [])"
proof -
  have populated: "\<forall>r \<in> set (process_articles root_element).
      id_key r \<noteq> None \<and> url r \<noteq> None \<and> title r \<noteq> None \<and> publication_date r \<noteq> None \<and>
      doi r \<noteq> None \<and> abstract r \<noteq> None \<and> authors r \<noteq> None \<and> keywords r \<noteq> None \<and>
      (\<exists>j. journal r = Some j \<and> name j \<noteq> None \<and> volume j \<noteq> None \<and>
           issue j \<noteq> None \<and> pages j \<noteq> None)"
  proof (cases root_element)
    case None
    then show ?thesis by (simp add: process_articles_def)
  next
    case (Some root')
    show ?thesis
    proof
      fix r assume "r \<in> set (process_articles root_element)"
      then obtain art where "r = article_data art"
        using Some by (auto simp: process_articles_def)
      then show "id_key r \<noteq> None \<and> url r \<noteq> None \<and> title r \<noteq> None \<and> publication_date r \<noteq> None \<and>
        doi r \<noteq> None \<and> abstract r \<noteq> None \<and> authors r \<noteq> None \<and> keywords r \<noteq> None \<and>
        (\<exists>j. journal r = Some j \<and> name j \<noteq> None \<and> volume j \<noteq> None \<and>
           issue j \<noteq> None \<and> pages j \<noteq> None)"
        using article_data_populated [of art] by simp
    qed
  qed
  have shape: "process_articles (Some root) =
     map article_data (findall root [Self, Descendant ''PubmedArticle''])"
    by (simp add: process_articles_def)
  have fields: "\<And>p. absent_or_empty art p \<Longrightarrow> extract_text art p NA = ''N/A''"
    by (simp add: extract_text_default NA_def)
  have lists: "(findall art [Self, Descendant ''Author''] = [] \<longrightarrow> authors (article_data art) = Some []) \<and>
   (findall art [Self, Descendant ''Keyword''] = [] \<longrightarrow> keywords (article_data art) = Some [])"
    by (simp add: article_data_def Let_def extract_authors_def extract_keywords_def)
  show ?thesis
    apply (intro conjI populated shape impI)
    apply (simp_all add: extract_text_default fields lists)
    apply (simp_all add: article_data_def Let_def fields)
    done
qed

lemmas run_query =
  findtext_def findall_def absent_or_empty_def node_def leaf_def

theorem process_articles_fully_populated_witness:
  "article_data bare_article \<in> set (process_articles (Some bare_document)) \<and>
   absent_or_empty bare_article [Self, Descendant ''PMID''] \<and>
   absent_or_empty bare_article [Self, Descendant ''ArticleTitle''] \<and>
   absent_or_empty bare_article [Self, Descendant ''Journal'', Child ''Title''] \<and>
   absent_or_empty bare_article [Self, Descendant ''Journal'', Child ''JournalIssue'', Child ''Volume''] \<and>
   absent_or_empty bare_article [Self, Descendant ''Journal'', Child ''JournalIssue'', Child ''Issue''] \<and>
   absent_or_empty bare_article [Self, Descendant ''Pagination'', Child ''MedlinePgn''] \<and>
   absent_or_empty bare_article [Self, Descendant ''PubDate'', Child ''Year''] \<and>
   absent_or_empty bare_article [Self, Descendant ''ELocationID'', AttrIs ''EIdType'' ''doi''] \<and>
   absent_or_empty bare_article [Self, Descendant ''Abstract'', Child ''AbstractText''] \<and>
   findall bare_article [Self, Descendant ''Author''] = [] \<and>
   findall bare_article [Self, Descendant ''Keyword''] = [] \<and>
   extract_text bare_article [Self, Descendant ''PMID''] ''?'' = ''?'' \<and>
   id_key (article_data bare_article) = Some ''N/A'' \<and>
   title (article_data bare_article) = Some ''N/A'' \<and>
   Option.bind (journal (article_data bare_article)) name = Some ''N/A'' \<and>
   Option.bind (journal (article_data bare_article)) volume = Some ''N/A'' \<and>
   Option.bind (journal (article_data bare_article)) issue = Some ''N/A'' \<and>
   Option.bind (journal (article_data bare_article)) pages = Some ''N/A'' \<and>
   publication_date (article_data bare_article) = Some ''N/A'' \<and>
   doi (article_data bare_article) = Some ''N/A'' \<and>
   abstract (article_data bare_article) = Some ''N/A'' \<and>
   authors (article_data bare_article) = Some [] \<and>
   keywords (article_data bare_article) = Some [] \<and>
   url (article_data bare_article) \<noteq> None"
proof -
  have a: "absent_or_empty bare_article [Self, Descendant ''PMID'']"
    "absent_or_empty bare_article [Self, Descendant ''ArticleTitle'']"
    "absent_or_empty bare_article [Self, Descendant ''Journal'', Child ''Title'']"
    "absent_or_empty bare_article [Self, Descendant ''Journal'', Child ''JournalIssue'', Child ''Volume'']"
    "absent_or_empty bare_article [Self, Descendant ''Journal'', Child ''JournalIssue'', Child ''Issue'']"
    "absent_or_empty bare_article [Self, Descendant ''Pagination'', Child ''MedlinePgn'']"
    "absent_or_empty bare_article [Self, Descendant ''PubDate'', Child ''Year'']"
    "absent_or_empty bare_article [Self, Descendant ''ELocationID'', AttrIs ''EIdType'' ''doi'']"
    "absent_or_empty bare_article [Self, Descendant ''Abstract'', Child ''AbstractText'']"
    by (simp_all add: run_query bare_article_def)
  have b: "findall bare_article [Self, Descendant ''Author''] = []"
    "findall bare_article [Self, Descendant ''Keyword''] = []"
    by (simp_all add: run_query bare_article_def)
  have c: "findall bare_document [Self, Descendant ''PubmedArticle''] = [bare_article]"
    by (simp add: run_query bare_document_def bare_article_def)
  note inst = process_articles_fully_populated
    [of "Some bare_document" bare_document bare_article "[Self, Descendant ''PMID'']" "''?''"
      bare_article]
  from inst c have d: "article_data bare_article \<in> set (process_articles (Some bare_document))"
    by simp
  with inst have "url (article_data bare_article) \<noteq> None" by blast
  with inst a b d show ?thesis by blast
qed

text \<open>
  Claim C6. For a record with more than 6 authors the author list of the citation is the
  first 6 authors, each as "lastname initials", followed by the one entry "et al", 7
  entries in all; for a record with at most 6 authors it is the authors themselves and
  nothing is appended. The citation starts with these entries joined by ", ".
\<close>

theorem generate_citation_authors:
  "(length (get_default (authors a) []) > 6 \<longrightarrow>
      author_list a = map author_token (take 6 (get_default (authors a) [])) @ [''et al''] \<and>
      length (author_list a) = 7) \<and>
   (length (get_default (authors a) []) \<le> 6 \<longrightarrow>
      author_list a = map author_token (get_default (authors a) [])) \<and>
   length (author_list a) \<le> 7 \<and>
   author_token au = get_default (lastname au) '''' @ '' '' @ get_default (initials au) '''' \<and>
   (\<exists>rest. generate_citation a = join '', '' (author_list a) @ ''. '' @ rest)"
proof (intro conjI impI)
  assume "length (get_default (authors a) []) > 6"
  then show "author_list a = map author_token (take 6 (get_default (authors a) [])) @ [''et al'']"
    by (simp add: author_list_def)
  then show "length (author_list a) = 7"
    using \<open>length (get_default (authors a) []) > 6\<close> by simp
next
  assume "length (get_default (authors a) []) \<le> 6"
  then show "author_list a = map author_token (get_default (authors a) [])"
    by (simp add: author_list_def)
next
  show "length (author_list a) \<le> 7"
    by (simp add: author_list_def Let_def)
next
  show "author_token au = get_default (lastname au) '''' @ '' '' @ get_default (initials au) ''''"
    by (simp add: author_token_def)
next
  show "\<exists>rest. generate_citation a = join '', '' (author_list a) @ ''. '' @ rest"
    by (simp add: generate_citation_def Let_def)
qed

theorem generate_citation_authors_witness:
  "length (get_default (authors (paper_by eight_authors)) []) > 6 \<and>
   author_list (paper_by eight_authors) =
     [''A a'', ''B b'', ''C c'', ''D d'', ''E e'', ''F f'', ''et al''] \<and>
   length (get_default (authors (paper_by (take 2 eight_authors))) []) \<le> 6 \<and>
   author_list (paper_by (take 2 eight_authors)) = [''A a'', ''B b''] \<and>
   generate_citation (paper_by eight_authors) =
     ''A a, B b, C c, D d, E e, F f, et al. T. J. 2020;1(2):3-4. doi: 10.1/x''"
proof -
  have n8: "length (get_default (authors (paper_by eight_authors)) []) > 6"
    by (simp add: paper_by_def eight_authors_def)
  have n2: "length (get_default (authors (paper_by (take 2 eight_authors))) []) \<le> 6"
    by (simp add: paper_by_def eight_authors_def)
  have "author_list (paper_by eight_authors) =
      map author_token (take 6 (get_default (authors (paper_by eight_authors)) [])) @ [''et al'']"
    using generate_citation_authors [of "paper_by eight_authors"] n8 by blast
  then have l8: "author_list (paper_by eight_authors) =
     [''A a'', ''B b'', ''C c'', ''D d'', ''E e'', ''F f'', ''et al'']"
    by (simp add: paper_by_def eight_authors_def author_token_def author_def)
  have "author_list (paper_by (take 2 eight_authors)) =
      map author_token (get_default (authors (paper_by (take 2 eight_authors))) [])"
    using generate_citation_authors [of "paper_by (take 2 eight_authors)"] n2 by blast
  then have l2: "author_list (paper_by (take 2 eight_authors)) = [''A a'', ''B b'']"
    by (simp add: paper_by_def eight_authors_def author_token_def author_def)
  have c: "generate_citation (paper_by eight_authors) =
     ''A a, B b, C c, D d, E e, F f, et al. T. J. 2020;1(2):3-4. doi: 10.1/x''"
    by (simp add: generate_citation_def Let_def l8) (simp add: paper_by_def)
  from n8 l8 n2 l2 c show ?thesis by blast
qed

lemma generate_citation_segments:
  "generate_citation a =
     join '', '' (author_list a) @ ''. '' @ get_default (title a) '''' @ ''. '' @
     get_default (name (get_default (journal a) no_journal)) '''' @ ''. '' @
     get_default (publication_date a) '''' @ '';'' @
     get_default (volume (get_default (journal a) no_journal)) '''' @
     (if truthy_opt (issue (get_default (journal a) no_journal))
      then ''('' @ the (issue (get_default (journal a) no_journal)) @ '')'' else '''') @
     (if truthy_opt (pages (get_default (journal a) no_journal))
      then '':'' @ the (pages (get_default (journal a) no_journal)) else '''') @
     ''.'' @
     (if truthy_opt (doi a) then '' doi: '' @ the (doi a) else '''')"
  by (simp add: generate_citation_def Let_def)

lemma extract_text_NA_nonempty: "extract_text e p NA \<noteq> []"
  by (simp add: extract_text_def NA_def split: option.split)

lemma parsed_segments_always_present:
  "truthy_opt (issue (get_default (journal (article_data art)) no_journal)) \<and>
   truthy_opt (pages (get_default (journal (article_data art)) no_journal)) \<and>
   truthy_opt (doi (article_data art))"
  by (simp add: article_data_def Let_def extract_text_NA_nonempty)

lemma sparse_fetched: "fetch_article_metadata sparse_service (JArr [JStr ''101'']) world0 =
   (Inr (Some sparse_document),
    \<lparr>sent = [(NCBI_API_BASE @ ''/efetch.fcgi'', fetch_params ''101'')], slept = 0, logged = []\<rparr>)"
  by (simp add: fetch_article_metadata_def run_request sparse_service_def read_document_def)

lemma sparse_parsed: "process_articles (Some sparse_document) = [article_data sparse_article]"
  by (simp add: process_articles_def findall_def sparse_document_def sparse_article_def node_def leaf_def)

text \<open>
  Claim C5, on the code. The article node \<open>sparse_article\<close> has no issue, no pagination
  and no DOI. The parser stores the placeholder "N/A" for each of them, the tests of
  \<open>generate_citation\<close> take the placeholder for a value, and the citation that
  \<open>get_publication_details\<close> returns carries the three segments "(N/A)", ":N/A" and
  " doi: N/A".
\<close>

theorem generate_citation_placeholders:
  "findtext sparse_article [Self, Descendant ''Journal'', Child ''JournalIssue'', Child ''Issue''] = None \<and>
   findtext sparse_article [Self, Descendant ''Pagination'', Child ''MedlinePgn''] = None \<and>
   findtext sparse_article [Self, Descendant ''ELocationID'', AttrIs ''EIdType'' ''doi''] = None \<and>
   generate_citation (article_data sparse_article) =
     ''Smith J. On bile. Gut. 2020;12(N/A):N/A. doi: N/A'' \<and>
   get_publication_details sparse_service ''101'' world0 =
     ([(''status'', EStr ''success''),
       (''publication'', EPublication ((article_data sparse_article)
          \<lparr>citation := Some ''Smith J. On bile. Gut. 2020;12(N/A):N/A. doi: N/A''\<rparr>))],
      \<lparr>sent = [(NCBI_API_BASE @ ''/efetch.fcgi'', fetch_params ''101'')], slept = 0,
       logged = []\<rparr>)"
proof -
  have absent:
    "findtext sparse_article [Self, Descendant ''Journal'', Child ''JournalIssue'', Child ''Issue''] = None"
    "findtext sparse_article [Self, Descendant ''Pagination'', Child ''MedlinePgn''] = None"
    "findtext sparse_article [Self, Descendant ''ELocationID'', AttrIs ''EIdType'' ''doi''] = None"
    by (simp_all add: findtext_def findall_def sparse_article_def node_def leaf_def)
  have cite: "generate_citation (article_data sparse_article) =
     ''Smith J. On bile. Gut. 2020;12(N/A):N/A. doi: N/A''"
    by (simp add: generate_citation_def Let_def author_list_def author_token_def article_data_def
      extract_text_def extract_authors_def author_of_def findtext_def findall_def
      sparse_article_def node_def leaf_def NA_def no_journal_def)
  have nonblank: "strip ''101'' \<noteq> []"
    by (simp add: run_strip)
  have "get_publication_details sparse_service ''101'' world0 =
     ([(''status'', EStr ''success''),
       (''publication'', EPublication ((article_data sparse_article)
          \<lparr>citation := Some (generate_citation (article_data sparse_article))\<rparr>))],
      \<lparr>sent = [(NCBI_API_BASE @ ''/efetch.fcgi'', fetch_params ''101'')], slept = 0,
       logged = []\<rparr>)"
    using nonblank by (simp add: get_publication_details_def sparse_fetched sparse_parsed)
  with absent cite show ?thesis by simp
qed

section \<open>Properties of the statistics\<close>

subsection \<open>Dicts in insertion order\<close>

lemma map_of_dict_set: "map_of (dict_set k v d) = (map_of d)(k \<mapsto> v)"
  by (induction d) (auto simp: fun_eq_iff)

lemma keys_dict_set:
  "map fst (dict_set k v d) = (if k \<in> set (map fst d) then map fst d else map fst d @ [k])"
proof (induction d)
  case Nil
  then show ?case by simp
next
  case (Cons p d)
  obtain k' v' where p: "p = (k', v')" by (cases p)
  show ?case
  proof (cases "k = k'")
    case True
    then show ?thesis by (simp add: p)
  next
    case False
    then show ?thesis using Cons.IH by (simp add: p)
  qed
qed

lemma count_key_Some:
  "n \<noteq> [] \<Longrightarrow> n \<noteq> NA \<Longrightarrow>
   count_key (Some n) d = dict_set n (get_default (map_of d n) 0 + 1) d"
  by (simp add: count_key_def)

lemma count_key_counted: "count_key v d = count_names (counted v) d"
  by (cases v) (auto simp: count_key_def counted_def count_names_def)

lemma counted_valid: "n \<in> set (counted v) \<Longrightarrow> n \<noteq> [] \<and> n \<noteq> NA"
  by (cases v) (auto simp: counted_def split: if_splits)

lemma count_names_append: "count_names (xs @ ys) d = count_names ys (count_names xs d)"
  by (simp add: count_names_def)

lemma count_names_snoc: "count_names (ns @ [n]) d = count_key (Some n) (count_names ns d)"
  by (simp add: count_names_def)

subsection \<open>The loop over the articles\<close>

lemma fold_tally_step:
  "fold tally_step articles (js, ys) =
     (count_names (journal_names articles) js, count_names (observed_years articles) ys)"
proof (induction articles arbitrary: js ys)
  case Nil
  then show ?case by (simp add: journal_names_def observed_years_def count_names_def)
next
  case (Cons a articles)
  have "fold tally_step (a # articles) (js, ys) =
      fold tally_step articles
        (count_key (name (get_default (journal a) no_journal)) js,
         count_key (publication_date a) ys)"
    by (simp add: tally_step_def)
  also have "\<dots> =
      (count_names (journal_names articles)
         (count_names (counted (name (get_default (journal a) no_journal))) js),
       count_names (observed_years articles) (count_names (counted (publication_date a)) ys))"
    by (simp add: Cons.IH count_key_counted)
  finally show ?case
    by (simp add: journal_names_def observed_years_def count_names_append)
qed

lemma tally_eq:
  "tally articles =
     (count_names (journal_names articles) [], count_names (observed_years articles) [])"
  by (simp add: tally_def fold_tally_step)

lemma journal_names_valid: "n \<in> set (journal_names articles) \<Longrightarrow> n \<noteq> [] \<and> n \<noteq> NA"
  by (auto simp: journal_names_def dest: counted_valid)

lemma observed_years_valid: "n \<in> set (observed_years articles) \<Longrightarrow> n \<noteq> [] \<and> n \<noteq> NA"
  by (auto simp: observed_years_def dest: counted_valid)

subsection \<open>Counting a list of names\<close>

lemma keys_count_names:
  "\<forall>n\<in>set ns. n \<noteq> [] \<and> n \<noteq> NA \<Longrightarrow>
   distinct (map fst (count_names ns [])) \<and> set (map fst (count_names ns [])) = set ns"
proof (induction ns rule: rev_induct)
  case Nil
  then show ?case by (simp add: count_names_def)
next
  case (snoc n ns)
  then have n: "n \<noteq> []" "n \<noteq> NA" by auto
  from snoc have IH: "distinct (map fst (count_names ns []))"
    "set (map fst (count_names ns [])) = set ns" by auto
  show ?case
    using IH by (auto simp: count_names_snoc count_key_Some [OF n] keys_dict_set)
qed

lemma first_seen_less: "x \<in> set xs \<Longrightarrow> first_seen xs x < length xs"
  by (induction xs) (auto simp: first_seen_def)

lemma first_seen_append_mem:
  "x \<in> set xs \<Longrightarrow> first_seen (xs @ ys) x = first_seen xs x"
  by (induction xs) (auto simp: first_seen_def)

lemma first_seen_snoc_new:
  "x \<notin> set xs \<Longrightarrow> first_seen (xs @ [x]) x = length xs"
  by (induction xs) (auto simp: first_seen_def)

lemma order_count_names:
  "\<forall>n\<in>set ns. n \<noteq> [] \<and> n \<noteq> NA \<Longrightarrow>
   sorted_wrt (\<lambda>a b. first_seen ns a < first_seen ns b) (map fst (count_names ns []))"
proof (induction ns rule: rev_induct)
  case Nil
  then show ?case by (simp add: count_names_def)
next
  case (snoc n ns)
  then have n: "n \<noteq> []" "n \<noteq> NA" and v: "\<forall>n\<in>set ns. n \<noteq> [] \<and> n \<noteq> NA" by auto
  let ?ks = "map fst (count_names ns [])"
  from keys_count_names [OF v] have ks: "set ?ks = set ns" by simp
  from snoc.IH [OF v] have IH: "sorted_wrt (\<lambda>a b. first_seen ns a < first_seen ns b) ?ks" .
  have old: "sorted_wrt (\<lambda>a b. first_seen (ns @ [n]) a < first_seen (ns @ [n]) b) ?ks"
    using IH
  proof (rule sorted_wrt_mono_rel [rotated])
    fix a b assume "a \<in> set ?ks" "b \<in> set ?ks" "first_seen ns a < first_seen ns b"
    then show "first_seen (ns @ [n]) a < first_seen (ns @ [n]) b"
      using ks by (simp add: first_seen_append_mem)
  qed
  show ?case
  proof (cases "n \<in> set ns")
    case True
    then show ?thesis
      using old ks by (simp add: count_names_snoc count_key_Some [OF n] keys_dict_set)
  next
    case False
    have last: "\<forall>a\<in>set ns. first_seen (ns @ [n]) a < first_seen (ns @ [n]) n"
      using False by (simp add: first_seen_append_mem first_seen_snoc_new first_seen_less)
    have "map fst (count_names (ns @ [n]) []) = ?ks @ [n]"
      using ks False by (simp add: count_names_snoc count_key_Some [OF n] keys_dict_set)
    then show ?thesis
      using old ks last by (simp add: sorted_wrt_append)
  qed
qed

lemma count_list_snoc:
  "count_list (xs @ [y]) x = count_list xs x + (if x = y then 1 else 0)"
  by (induction xs) auto

lemma map_of_count_names:
  "\<forall>n\<in>set ns. n \<noteq> [] \<and> n \<noteq> NA \<Longrightarrow>
   map_of (count_names ns []) x = (if x \<in> set ns then Some (int (count_list ns x)) else None)"
proof (induction ns rule: rev_induct)
  case Nil
  then show ?case by (simp add: count_names_def)
next
  case (snoc n ns)
  then have n: "n \<noteq> []" "n \<noteq> NA" and v: "\<forall>n\<in>set ns. n \<noteq> [] \<and> n \<noteq> NA" by auto
  note IH = snoc.IH [OF v]
  have n0: "n \<notin> set ns \<Longrightarrow> count_list ns n = 0"
    by (simp add: count_list_0_iff)
  show ?case
    using IH n0
    by (auto simp: count_names_snoc count_key_Some [OF n] map_of_dict_set count_list_snoc)
qed

lemma count_names_entry:
  assumes "\<forall>n\<in>set ns. n \<noteq> [] \<and> n \<noteq> NA" and "(x, c) \<in> set (count_names ns [])"
  shows "x \<in> set ns \<and> c = int (count_list ns x)"
proof -
  from keys_count_names [OF assms(1)] have "distinct (map fst (count_names ns []))" by simp
  with assms(2) have "map_of (count_names ns []) x = Some c" by simp
  then show ?thesis
    using map_of_count_names [OF assms(1), of x] by (auto split: if_splits)
qed

subsection \<open>Sorting in reverse\<close>

lemma set_sorted_reverse: "set (sorted_reverse f xs) = set xs"
  by (simp add: sorted_reverse_def)

lemma length_sorted_reverse: "length (sorted_reverse f xs) = length xs"
  by (simp add: sorted_reverse_def)

lemma distinct_map_sorted_reverse:
  "distinct (map g (sorted_reverse f xs)) = distinct (map g xs)"
proof -
  have "distinct (map g (sort_key f ys)) = distinct (map g ys)" for ys
    by (simp add: distinct_map inj_on_def)
  then show ?thesis
    by (simp add: sorted_reverse_def rev_map [symmetric] del: rev_map)
qed

lemma descending_sorted_reverse: "sorted_wrt (\<lambda>a b. f b \<le> f a) (sorted_reverse f xs)"
proof -
  have "sorted (map f (sort_key f (rev xs)))" by (rule sorted_sort_key)
  then have "sorted_wrt (\<lambda>a b. f a \<le> f b) (sort_key f (rev xs))"
    by (simp add: sorted_map)
  then show ?thesis
    by (simp add: sorted_reverse_def sorted_wrt_rev)
qed

lemma stable_sorted_reverse:
  "filter (\<lambda>y. f y = k) (sorted_reverse f xs) = filter (\<lambda>y. f y = k) xs"
  by (simp add: sorted_reverse_def rev_filter [symmetric] sort_key_stable)

subsection \<open>The two rankings\<close>

lemma fst_tally: "fst (tally articles) = count_names (journal_names articles) []"
  by (simp add: tally_eq)

lemma snd_tally: "snd (tally articles) = count_names (observed_years articles) []"
  by (simp add: tally_eq)

lemma get_article_statistics_success:
  assumes "researcher \<noteq> []" and "strip researcher \<noteq> []"
    and "retrieve_article_ids t (researcher @ ''[Author]'') 100 w = (Inr (ids, total_count), w1)"
    and "truthy ids"
    and "py_slice 10 ids = Inr first_ids"
    and "fetch_article_metadata t first_ids w1 = (Inr root, w2)"
  shows "get_article_statistics t researcher w =
     ([(''status'', EStr ''success''),
       (''researcher'', EStr researcher),
       (''total_publications'', EInt total_count),
       (''recent_sample_size'', EInt (int (length (process_articles root)))),
       (''top_journals'', EJournals (top_journals (process_articles root))),
       (''publication_years'', EYears (publication_years (process_articles root))),
       (''sample_titles'', ETitles (map title (take 5 (process_articles root))))], w2)"
  using assms by (simp add: get_article_statistics_def Let_def)

lemma get_article_statistics_sample:
  assumes "get_article_statistics t researcher w = (env, w')"
    and "map_of env ''top_journals'' = Some v \<or> map_of env ''publication_years'' = Some v"
  shows "\<exists>ids total_count w1 first_ids root.
           retrieve_article_ids t (researcher @ ''[Author]'') 100 w = (Inr (ids, total_count), w1) \<and>
           truthy ids \<and> py_slice 10 ids = Inr first_ids \<and>
           fetch_article_metadata t first_ids w1 = (Inr root, w') \<and>
           map_of env ''top_journals'' = Some (EJournals (top_journals (process_articles root))) \<and>
           map_of env ''publication_years'' =
             Some (EYears (publication_years (process_articles root)))"
  using assms
  by (auto simp: get_article_statistics_def tool_failed_def Let_def
      split: if_splits prod.splits sum.splits)

lemma sorted_wrt_prefix_filter:
  assumes "sorted_wrt R (filter P xs)"
  shows "sorted_wrt R (filter P (take n xs))"
proof -
  have "filter P xs = filter P (take n xs) @ filter P (drop n xs)"
    by (metis append_take_drop_id filter_append)
  with assms show ?thesis by (simp add: sorted_wrt_append)
qed

lemma statistics_success_link:
  "\<forall>t researcher w ids total_count w1 first_ids root w2.
         researcher \<noteq> [] \<and> strip researcher \<noteq> [] \<and>
         retrieve_article_ids t (researcher @ ''[Author]'') 100 w =
           (Inr (ids, total_count), w1) \<and>
         truthy ids \<and> py_slice 10 ids = Inr first_ids \<and>
         fetch_article_metadata t first_ids w1 = (Inr root, w2) \<longrightarrow>
         get_article_statistics t researcher w =
           ([(''status'', EStr ''success''),
              (''researcher'', EStr researcher),
              (''total_publications'', EInt total_count),
              (''recent_sample_size'', EInt (int (length (process_articles root)))),
              (''top_journals'', EJournals (top_journals (process_articles root))),
              (''publication_years'', EYears (publication_years (process_articles root))),
              (''sample_titles'', ETitles (map title (take 5 (process_articles root))))], w2)"
proof (intro allI impI)
  fix t researcher w ids total_count w1 first_ids root w2
  assume h: "researcher \<noteq> [] \<and> strip researcher \<noteq> [] \<and>
         retrieve_article_ids t (researcher @ ''[Author]'') 100 w =
           (Inr (ids, total_count), w1) \<and>
         truthy ids \<and> py_slice 10 ids = Inr first_ids \<and>
         fetch_article_metadata t first_ids w1 = (Inr root, w2)"
  then have a: "researcher \<noteq> []" "strip researcher \<noteq> []"
    "retrieve_article_ids t (researcher @ ''[Author]'') 100 w = (Inr (ids, total_count), w1)"
    "truthy ids" "py_slice 10 ids = Inr first_ids"
    "fetch_article_metadata t first_ids w1 = (Inr root, w2)"
    by simp_all
  show "get_article_statistics t researcher w =
           ([(''status'', EStr ''success''),
              (''researcher'', EStr researcher),
              (''total_publications'', EInt total_count),
              (''recent_sample_size'', EInt (int (length (process_articles root)))),
              (''top_journals'', EJournals (top_journals (process_articles root))),
              (''publication_years'', EYears (publication_years (process_articles root))),
              (''sample_titles'', ETitles (map title (take 5 (process_articles root))))], w2)"
    using a by (rule get_article_statistics_success)
qed

lemma top_journals_link:
  "\<forall>t researcher w env w' v.
         get_article_statistics t researcher w = (env, w') \<and>
         map_of env ''top_journals'' = Some v \<longrightarrow>
         (\<exists>ids total_count w1 first_ids root.
             retrieve_article_ids t (researcher @ ''[Author]'') 100 w =
               (Inr (ids, total_count), w1) \<and>
             truthy ids \<and> py_slice 10 ids = Inr first_ids \<and>
             fetch_article_metadata t first_ids w1 = (Inr root, w') \<and>
             v = EJournals (top_journals (process_articles root)))"
proof (intro allI impI)
  fix t researcher w env w' v
  assume h: "get_article_statistics t researcher w = (env, w') \<and>
       map_of env ''top_journals'' = Some v"
  then have "map_of env ''top_journals'' = Some v \<or> map_of env ''publication_years'' = Some v"
    by simp
  with h obtain ids total_count w1 first_ids root where
    "retrieve_article_ids t (researcher @ ''[Author]'') 100 w = (Inr (ids, total_count), w1)"
    "truthy ids" "py_slice 10 ids = Inr first_ids"
    "fetch_article_metadata t first_ids w1 = (Inr root, w')"
    "map_of env ''top_journals'' = Some (EJournals (top_journals (process_articles root)))"
    using get_article_statistics_sample [of t researcher w env w' v] by blast
  with h show "\<exists>ids total_count w1 first_ids root.
           retrieve_article_ids t (researcher @ ''[Author]'') 100 w =
             (Inr (ids, total_count), w1) \<and>
           truthy ids \<and> py_slice 10 ids = Inr first_ids \<and>
           fetch_article_metadata t first_ids w1 = (Inr root, w') \<and>
           v = EJournals (top_journals (process_articles root))"
    by auto
qed

lemma publication_years_link:
  "\<forall>t researcher w env w' v.
         get_article_statistics t researcher w = (env, w') \<and>
         map_of env ''publication_years'' = Some v \<longrightarrow>
         (\<exists>ids total_count w1 first_ids root.
             retrieve_article_ids t (researcher @ ''[Author]'') 100 w =
               (Inr (ids, total_count), w1) \<and>
             truthy ids \<and> py_slice 10 ids = Inr first_ids \<and>
             fetch_article_metadata t first_ids w1 = (Inr root, w') \<and>
             v = EYears (publication_years (process_articles root)))"
proof (intro allI impI)
  fix t researcher w env w' v
  assume h: "get_article_statistics t researcher w = (env, w') \<and>
       map_of env ''publication_years'' = Some v"
  then have "map_of env ''top_journals'' = Some v \<or> map_of env ''publication_years'' = Some v"
    by simp
  with h obtain ids total_count w1 first_ids root where
    "retrieve_article_ids t (researcher @ ''[Author]'') 100 w = (Inr (ids, total_count), w1)"
    "truthy ids" "py_slice 10 ids = Inr first_ids"
    "fetch_article_metadata t first_ids w1 = (Inr root, w')"
    "map_of env ''publication_years'' = Some (EYears (publication_years (process_articles root)))"
    using get_article_statistics_sample [of t researcher w env w' v] by blast
  with h show "\<exists>ids total_count w1 first_ids root.
           retrieve_article_ids t (researcher @ ''[Author]'') 100 w =
             (Inr (ids, total_count), w1) \<and>
           truthy ids \<and> py_slice 10 ids = Inr first_ids \<and>
           fetch_article_metadata t first_ids w1 = (Inr root, w') \<and>
           v = EYears (publication_years (process_articles root))"
    by auto
qed


lemma entry_name:
  "extract_text (entry j y) [Self, Descendant ''Journal'', Child ''Title''] dflt =
     (if j = [] then dflt else j)"
  by (simp add: extract_text_def findtext_def findall_def entry_def node_def leaf_def)

lemma entry_year:
  "extract_text (entry j y) [Self, Descendant ''PubDate'', Child ''Year''] dflt =
     (if y = [] then dflt else y)"
  by (simp add: extract_text_def findtext_def findall_def entry_def node_def leaf_def)

lemma article_data_journal_name:
  "name (get_default (journal (article_data art)) no_journal) =
     Some (extract_text art [Self, Descendant ''Journal'', Child ''Title''] NA)"
  by (simp add: article_data_def Let_def)

lemma article_data_year:
  "publication_date (article_data art) =
     Some (extract_text art [Self, Descendant ''PubDate'', Child ''Year''] NA)"
  by (simp add: article_data_def Let_def)

lemma shelf_articles:
  "process_articles (Some shelf) =
     map article_data
       [entry ''B'' ''2021'', entry ''A'' ''2019'', entry ''B'' ''2023'', entry ''C'' '''',
        entry ''A'' ''2021'', entry '''' ''2021'', entry ''D'' ''2019'', entry ''E'' ''2021'',
        entry ''F'' ''2021'']"
  by (simp add: process_articles_def findall_def shelf_def) (simp add: entry_def node_def leaf_def)

subsection \<open>A run of the statistics on a stub of the service\<close>

lemma entry_title:
  "extract_text (entry j y) [Self, Descendant ''ArticleTitle''] dflt = dflt"
  by (simp add: extract_text_def findtext_def findall_def entry_def node_def leaf_def)

lemma article_data_title:
  "title (article_data art) = Some (extract_text art [Self, Descendant ''ArticleTitle''] NA)"
  by (simp add: article_data_def Let_def)

lemma library_search:
  "retrieve_article_ids (library doc) (r @ ''[Author]'') 100 world0 =
     (Inr (JArr [JStr ''101'', JStr ''102''], 42),
      \<lparr>sent = [(NCBI_API_BASE @ ''/esearch.fcgi'', search_params (r @ ''[Author]'') 100)],
       slept = 0, logged = [INFO, INFO]\<rparr>)"
  by (simp add: retrieve_article_ids_def run_request library_def search_response_def
      read_search_result_def run_strip unsigned_value_def is_digit_def digit_value_def
      MAX_STR_DIGITS_def)

lemma library_fetch:
  "fetch_article_metadata (library doc) (JArr [JStr ''101'', JStr ''102''])
     \<lparr>sent = [(NCBI_API_BASE @ ''/esearch.fcgi'', ps)], slept = 0, logged = [INFO, INFO]\<rparr> =
     (Inr (Some doc),
      \<lparr>sent = [(NCBI_API_BASE @ ''/esearch.fcgi'', ps),
               (NCBI_API_BASE @ ''/efetch.fcgi'', fetch_params ''101,102'')],
       slept = 0, logged = [INFO, INFO]\<rparr>)"
  by (simp add: fetch_article_metadata_def run_request library_def read_document_def)

lemma three_years_articles:
  "process_articles (Some three_years) =
     map article_data [entry ''J'' ''2021'', entry ''J'' ''2019'', entry ''K'' ''2023'']"
  by (simp add: process_articles_def findall_def three_years_def)
    (simp add: entry_def node_def leaf_def)

lemmas run_entries =
  journal_names_def observed_years_def counted_def article_data_journal_name
  article_data_year article_data_title entry_name entry_year entry_title NA_def

lemmas run_ranking =
  top_journals_def publication_years_def fst_tally snd_tally count_names_def count_key_def
  sorted_reverse_def

text \<open>
  Claim C7. The \<open>top_journals\<close> of \<open>get_article_statistics\<close> are at most 5 entries, in
  descending order of their counts; among the entries with the same count, a journal whose
  name was first met earlier in the sample comes first. The entries are the counted
  journal names, each once and with the number of its occurrences in the sample, where a
  name that is missing, empty or "N/A" is not counted; a counted journal that is left out
  has a count no greater than any of the 5 entries. This holds of every sample. When the
  search of \<open>get_article_statistics\<close> yields identifiers and the fetch of the first ten
  returns the document \<open>root\<close>, the result is the success envelope whose \<open>top_journals\<close>
  are those of the sample \<open>process_articles root\<close>; and whenever a result has the key
  \<open>top_journals\<close>, its value is that of the sample so fetched.
\<close>

theorem top_journals_ranked:
  fixes articles :: "article list"
  defines "names \<equiv> journal_names articles"
  defines "ranked \<equiv> top_journals articles"
  shows
    "length ranked \<le> 5 \<and>
     sorted_wrt (\<lambda>a b. snd b \<le> snd a) ranked \<and>
     (\<forall>c. sorted_wrt (\<lambda>a b. first_seen names (fst a) < first_seen names (fst b))
            (filter (\<lambda>p. snd p = c) ranked)) \<and>
     (\<forall>(n, c) \<in> set ranked. n \<in> set names \<and> c = int (count_list names n)) \<and>
     distinct (map fst ranked) \<and>
     (\<forall>n \<in> set names. n \<noteq> [] \<and> n \<noteq> ''N/A'') \<and>
     (\<forall>n \<in> set names. (n, int (count_list names n)) \<notin> set ranked \<longrightarrow>
         length ranked = 5 \<and> (\<forall>q \<in> set ranked. int (count_list names n) \<le> snd q)) \<and>
     (\<forall>t researcher w ids total_count w1 first_ids root w2.
         researcher \<noteq> [] \<and> strip researcher \<noteq> [] \<and>
         retrieve_article_ids t (researcher @ ''[Author]'') 100 w =
           (Inr (ids, total_count), w1) \<and>
         truthy ids \<and> py_slice 10 ids = Inr first_ids \<and>
         fetch_article_metadata t first_ids w1 = (Inr root, w2) \<longrightarrow>
         get_article_statistics t researcher w =
           ([(''status'', EStr ''success''),
              (''researcher'', EStr researcher),
              (''total_publications'', EInt total_count),
              (''recent_sample_size'', EInt (int (length (process_articles root)))),
              (''top_journals'', EJournals (top_journals (process_articles root))),
              (''publication_years'', EYears (publication_years (process_articles root))),
              (''sample_titles'', ETitles (map title (take 5 (process_articles root))))], w2)) \<and>
     (\<forall>t researcher w env w' v.
         get_article_statistics t researcher w = (env, w') \<and>
         map_of env ''top_journals'' = Some v \<longrightarrow>
         (\<exists>ids total_count w1 first_ids root.
             retrieve_article_ids t (researcher @ ''[Author]'') 100 w =
               (Inr (ids, total_count), w1) \<and>
             truthy ids \<and> py_slice 10 ids = Inr first_ids \<and>
             fetch_article_metadata t first_ids w1 = (Inr root, w') \<and>
             v = EJournals (top_journals (process_articles root))))"
proof -
  let ?J = "count_names names []"
  let ?S = "sorted_reverse snd ?J"
  have top: "ranked = take 5 ?S"
    by (simp add: ranked_def names_def top_journals_def fst_tally)
  have v: "\<forall>n\<in>set names. n \<noteq> [] \<and> n \<noteq> NA"
    using journal_names_valid by (auto simp: names_def)
  have desc: "sorted_wrt (\<lambda>a b. snd b \<le> snd a) ?S"
    by (rule descending_sorted_reverse)
  have c1: "length ranked \<le> 5" by (simp add: top)
  have c2: "sorted_wrt (\<lambda>a b. snd b \<le> snd a) ranked"
    unfolding top using desc by (rule sorted_wrt_take)
  have c3: "\<forall>c. sorted_wrt (\<lambda>a b. first_seen names (fst a) < first_seen names (fst b))
            (filter (\<lambda>p. snd p = c) ranked)"
  proof
    fix c
    have "sorted_wrt (\<lambda>a b. first_seen names (fst a) < first_seen names (fst b)) ?J"
      using order_count_names [OF v] by (simp add: sorted_wrt_map)
    then have "sorted_wrt (\<lambda>a b. first_seen names (fst a) < first_seen names (fst b))
        (filter (\<lambda>p. snd p = c) ?J)"
      by (rule sorted_wrt_filter)
    then have "sorted_wrt (\<lambda>a b. first_seen names (fst a) < first_seen names (fst b))
        (filter (\<lambda>p. snd p = c) ?S)"
      by (simp add: stable_sorted_reverse)
    then show "sorted_wrt (\<lambda>a b. first_seen names (fst a) < first_seen names (fst b))
            (filter (\<lambda>p. snd p = c) ranked)"
      unfolding top by (rule sorted_wrt_prefix_filter)
  qed
  have sub: "set ranked \<subseteq> set ?J"
    unfolding top using set_take_subset [of 5 ?S] by (simp add: set_sorted_reverse)
  have c4: "\<forall>(n, c) \<in> set ranked. n \<in> set names \<and> c = int (count_list names n)"
    using sub count_names_entry [OF v] by blast
  have "distinct (map fst ?S)"
    using keys_count_names [OF v] by (simp add: distinct_map_sorted_reverse)
  then have "distinct (take 5 (map fst ?S))" by (rule distinct_take)
  then have c5: "distinct (map fst ranked)"
    unfolding top by (simp add: take_map)
  have c6: "\<forall>n \<in> set names. n \<noteq> [] \<and> n \<noteq> ''N/A''"
    using v by (simp add: NA_def)
  have c7: "\<forall>n \<in> set names. (n, int (count_list names n)) \<notin> set ranked \<longrightarrow>
         length ranked = 5 \<and> (\<forall>q \<in> set ranked. int (count_list names n) \<le> snd q)"
  proof (intro ballI impI)
    fix n assume n: "n \<in> set names" and out: "(n, int (count_list names n)) \<notin> set ranked"
    let ?p = "(n, int (count_list names n))"
    have "map_of ?J n = Some (int (count_list names n))"
      using map_of_count_names [OF v, of n] n by simp
    then have "?p \<in> set ?J" by (rule map_of_SomeD)
    then have "?p \<in> set ?S"
      by (simp add: set_sorted_reverse)
    moreover have "set ?S = set (take 5 ?S) \<union> set (drop 5 ?S)"
      by (metis append_take_drop_id set_append)
    ultimately have rest: "?p \<in> set (drop 5 ?S)"
      using out unfolding top by blast
    then have "drop 5 ?S \<noteq> []" by auto
    then have len: "length ranked = 5" by (simp add: top)
    have "sorted_wrt (\<lambda>a b. snd b \<le> snd a) (take 5 ?S @ drop 5 ?S)"
      using desc by simp
    then have "\<forall>q\<in>set (take 5 ?S). \<forall>p\<in>set (drop 5 ?S). snd p \<le> snd q"
      unfolding sorted_wrt_append by blast
    with rest have "\<forall>q \<in> set ranked. int (count_list names n) \<le> snd q"
      unfolding top by fastforce
    with len show "length ranked = 5 \<and> (\<forall>q \<in> set ranked. int (count_list names n) \<le> snd q)"
      by simp
  qed
  show ?thesis
    by (intro conjI c1 c2 c3 c4 c5 c6 c7 statistics_success_link top_journals_link)
qed

theorem top_journals_ranked_witness:
  "strip ''Smith J'' \<noteq> [] \<and>
   retrieve_article_ids (library shelf) (''Smith J'' @ ''[Author]'') 100 world0 =
     (Inr (JArr [JStr ''101'', JStr ''102''], 42),
      \<lparr>sent = [(NCBI_API_BASE @ ''/esearch.fcgi'',
                 search_params (''Smith J'' @ ''[Author]'') 100)],
       slept = 0, logged = [INFO, INFO]\<rparr>) \<and>
   truthy (JArr [JStr ''101'', JStr ''102'']) \<and>
   py_slice 10 (JArr [JStr ''101'', JStr ''102'']) = Inr (JArr [JStr ''101'', JStr ''102'']) \<and>
   fetch_article_metadata (library shelf) (JArr [JStr ''101'', JStr ''102''])
     \<lparr>sent = [(NCBI_API_BASE @ ''/esearch.fcgi'',
                search_params (''Smith J'' @ ''[Author]'') 100)],
      slept = 0, logged = [INFO, INFO]\<rparr> =
     (Inr (Some shelf),
      \<lparr>sent = [(NCBI_API_BASE @ ''/esearch.fcgi'',
                 search_params (''Smith J'' @ ''[Author]'') 100),
               (NCBI_API_BASE @ ''/efetch.fcgi'', fetch_params ''101,102'')],
       slept = 0, logged = [INFO, INFO]\<rparr>) \<and>
   get_article_statistics (library shelf) ''Smith J'' world0 =
     ([(''status'', EStr ''success''),
       (''researcher'', EStr ''Smith J''),
       (''total_publications'', EInt 42),
       (''recent_sample_size'', EInt 9),
       (''top_journals'',
          EJournals [(''B'', 2), (''A'', 2), (''C'', 1), (''D'', 1), (''E'', 1)]),
       (''publication_years'', EYears [(''2023'', 1), (''2021'', 5), (''2019'', 2)]),
       (''sample_titles'',
          ETitles [Some ''N/A'', Some ''N/A'', Some ''N/A'', Some ''N/A'', Some ''N/A''])],
      \<lparr>sent = [(NCBI_API_BASE @ ''/esearch.fcgi'',
                 search_params (''Smith J'' @ ''[Author]'') 100),
               (NCBI_API_BASE @ ''/efetch.fcgi'', fetch_params ''101,102'')],
       slept = 0, logged = [INFO, INFO]\<rparr>) \<and>
   journal_names (process_articles (Some shelf)) =
     [''B'', ''A'', ''B'', ''C'', ''A'', ''D'', ''E'', ''F''] \<and>
   ''F'' \<in> set (journal_names (process_articles (Some shelf))) \<and>
   (''F'', int (count_list (journal_names (process_articles (Some shelf))) ''F''))
     \<notin> set (top_journals (process_articles (Some shelf))) \<and>
   length (top_journals (process_articles (Some shelf))) = 5 \<and>
   first_seen (journal_names (process_articles (Some shelf))) ''B''
     < first_seen (journal_names (process_articles (Some shelf))) ''A'' \<and>
   (\<exists>ids total_count w1 first_ids root.
       retrieve_article_ids (library shelf) (''Smith J'' @ ''[Author]'') 100 world0 =
         (Inr (ids, total_count), w1) \<and>
       truthy ids \<and> py_slice 10 ids = Inr first_ids \<and>
       fetch_article_metadata (library shelf) first_ids w1 =
         (Inr root,
          \<lparr>sent = [(NCBI_API_BASE @ ''/esearch.fcgi'',
                    search_params (''Smith J'' @ ''[Author]'') 100),
                  (NCBI_API_BASE @ ''/efetch.fcgi'', fetch_params ''101,102'')],
          slept = 0, logged = [INFO, INFO]\<rparr>) \<and>
       EJournals [(''B'', 2), (''A'', 2), (''C'', 1), (''D'', 1), (''E'', 1)] = EJournals (top_journals (process_articles root)))"
proof -
  let ?ids = "JArr [JStr ''101'', JStr ''102'']"
  let ?W1 = "\<lparr>sent = [(NCBI_API_BASE @ ''/esearch.fcgi'',
                 search_params (''Smith J'' @ ''[Author]'') 100)],
       slept = 0, logged = [INFO, INFO]\<rparr>"
  let ?W2 = "\<lparr>sent = [(NCBI_API_BASE @ ''/esearch.fcgi'',
                 search_params (''Smith J'' @ ''[Author]'') 100),
               (NCBI_API_BASE @ ''/efetch.fcgi'', fetch_params ''101,102'')],
       slept = 0, logged = [INFO, INFO]\<rparr>"
  let ?sample = "process_articles (Some shelf)"
  have named: "''Smith J'' \<noteq> []" by simp
  have nonblank: "strip ''Smith J'' \<noteq> []" by (simp add: run_strip)
  have search: "retrieve_article_ids (library shelf) (''Smith J'' @ ''[Author]'') 100 world0 =
      (Inr (?ids, 42), ?W1)"
    by (rule library_search)
  have some: "truthy ?ids" by simp
  have first: "py_slice 10 ?ids = Inr ?ids" by simp
  have fetch: "fetch_article_metadata (library shelf) ?ids ?W1 = (Inr (Some shelf), ?W2)"
    by (rule library_fetch)
  have names: "journal_names ?sample = [''B'', ''A'', ''B'', ''C'', ''A'', ''D'', ''E'', ''F'']"
    by (simp add: shelf_articles run_entries)
  have years: "observed_years ?sample =
      [''2021'', ''2019'', ''2023'', ''2021'', ''2021'', ''2019'', ''2021'', ''2021'']"
    by (simp add: shelf_articles run_entries)
  have ranked: "top_journals ?sample =
      [(''B'', 2), (''A'', 2), (''C'', 1), (''D'', 1), (''E'', 1)]"
    by (simp add: run_ranking names NA_def)
  have dist: "publication_years ?sample = [(''2023'', 1), (''2021'', 5), (''2019'', 2)]"
    by (simp add: run_ranking years NA_def)
  have size: "int (length ?sample) = 9"
    by (simp add: shelf_articles)
  have titles: "map title (take 5 ?sample) =
      [Some ''N/A'', Some ''N/A'', Some ''N/A'', Some ''N/A'', Some ''N/A'']"
    by (simp add: shelf_articles run_entries)
  note inst = top_journals_ranked [of ?sample]
  note link = inst [THEN conjunct2, THEN conjunct2, THEN conjunct2, THEN conjunct2,
      THEN conjunct2, THEN conjunct2, THEN conjunct2, THEN conjunct1, rule_format]
  note left_out = inst [THEN conjunct2, THEN conjunct2, THEN conjunct2, THEN conjunct2,
      THEN conjunct2, THEN conjunct2, THEN conjunct1, rule_format]
  note ties = inst [THEN conjunct2, THEN conjunct2, THEN conjunct1, rule_format, of 2]
  have "get_article_statistics (library shelf) ''Smith J'' world0 =
     ([(''status'', EStr ''success''),
       (''researcher'', EStr ''Smith J''),
       (''total_publications'', EInt 42),
       (''recent_sample_size'', EInt (int (length ?sample))),
       (''top_journals'', EJournals (top_journals ?sample)),
       (''publication_years'', EYears (publication_years ?sample)),
       (''sample_titles'', ETitles (map title (take 5 ?sample)))], ?W2)"
    using named nonblank search some first fetch by (intro link conjI)
  then have run: "get_article_statistics (library shelf) ''Smith J'' world0 =
     ([(''status'', EStr ''success''),
       (''researcher'', EStr ''Smith J''),
       (''total_publications'', EInt 42),
       (''recent_sample_size'', EInt 9),
       (''top_journals'',
          EJournals [(''B'', 2), (''A'', 2), (''C'', 1), (''D'', 1), (''E'', 1)]),
       (''publication_years'', EYears [(''2023'', 1), (''2021'', 5), (''2019'', 2)]),
       (''sample_titles'',
          ETitles [Some ''N/A'', Some ''N/A'', Some ''N/A'', Some ''N/A'', Some ''N/A''])],
      ?W2)"
    by (simp only: ranked dist size titles)
  have f: "''F'' \<in> set (journal_names ?sample)"
    by (simp add: names)
  have out: "(''F'', int (count_list (journal_names ?sample) ''F'')) \<notin> set (top_journals ?sample)"
    by (simp add: ranked)
  from left_out [OF f out] have len: "length (top_journals ?sample) = 5" by (rule conjunct1)
  from ties have order: "first_seen (journal_names ?sample) ''B''
      < first_seen (journal_names ?sample) ''A''"
    by (simp add: ranked)
  note origin = inst [THEN conjunct2, THEN conjunct2, THEN conjunct2, THEN conjunct2, THEN conjunct2, THEN conjunct2, THEN conjunct2, THEN conjunct2, rule_format]
  have key: "map_of (fst (get_article_statistics (library shelf) ''Smith J'' world0)) ''top_journals'' =
      Some (EJournals [(''B'', 2), (''A'', 2), (''C'', 1), (''D'', 1), (''E'', 1)])"
    by (simp add: run)
  have whole: "get_article_statistics (library shelf) ''Smith J'' world0 =
      (fst (get_article_statistics (library shelf) ''Smith J'' world0), ?W2)"
    by (simp add: run)
  from origin [OF conjI [OF whole key]]
  have traced: "\<exists>ids total_count w1 first_ids root.
         retrieve_article_ids (library shelf) (''Smith J'' @ ''[Author]'') 100 world0 =
           (Inr (ids, total_count), w1) \<and>
         truthy ids \<and> py_slice 10 ids = Inr first_ids \<and>
         fetch_article_metadata (library shelf) first_ids w1 =
           (Inr root,
            ?W2) \<and>
         EJournals [(''B'', 2), (''A'', 2), (''C'', 1), (''D'', 1), (''E'', 1)] = EJournals (top_journals (process_articles root))" .
  show ?thesis
    by (intro conjI nonblank search some first fetch run names f out len order traced)
qed

lemma observed_years_dates:
  "observed_years articles = concat (map counted (map publication_date articles))"
  by (simp add: observed_years_def comp_def)

lemma strictly_descending:
  fixes f :: "'a \<Rightarrow> 'b::order"
  shows "sorted_wrt (\<lambda>a b. f b \<le> f a) xs \<Longrightarrow> distinct (map f xs) \<Longrightarrow>
   sorted_wrt (\<lambda>a b. f b < f a) xs"
proof (induction xs)
  case Nil
  then show ?case by simp
next
  case (Cons a xs)
  have "f x < f a" if "x \<in> set xs" for x
  proof -
    from that Cons.prems(1) have "f x \<le> f a" by simp
    moreover from Cons.prems(2) have "f a \<notin> f ` set xs" by simp
    with that have "f x \<noteq> f a" by (metis imageI)
    ultimately show ?thesis by simp
  qed
  with Cons show ?case by simp
qed

text \<open>
  Claim C8. The \<open>publication_years\<close> of \<open>get_article_statistics\<close> are in strictly
  descending order of the year strings, compared lexicographically as strings and not as
  numbers: the observed years "2021", "2019", "2023" give the order "2023", "2021",
  "2019", and "999" comes before "2023". Every observed year is listed with its number of
  occurrences. This holds of every sample. When the search of \<open>get_article_statistics\<close>
  yields identifiers and the fetch of the first ten returns the document \<open>root\<close>, the
  result is the success envelope whose \<open>publication_years\<close> are those of the sample
  \<open>process_articles root\<close>; and whenever a result has the key \<open>publication_years\<close>, its
  value is that of the sample so fetched.
\<close>

theorem publication_years_descending:
  fixes articles :: "article list"
  defines "years \<equiv> observed_years articles"
  defines "dist \<equiv> publication_years articles"
  shows
    "sorted_wrt (\<lambda>a b. fst b < fst a) dist \<and>
     sorted_wrt (\<lambda>a b. (fst b, fst a) \<in> lexord {(c, d). c < d}) dist \<and>
     fst ` set dist = set years \<and>
     (\<forall>(y, c) \<in> set dist. c = int (count_list years y)) \<and>
     (\<forall>y \<in> set years. y \<noteq> [] \<and> y \<noteq> ''N/A'') \<and>
     (map publication_date articles = [Some ''2021'', Some ''2019'', Some ''2023''] \<longrightarrow>
        dist = [(''2023'', 1), (''2021'', 1), (''2019'', 1)]) \<and>
     (map publication_date articles = [Some ''2023'', Some ''999''] \<longrightarrow>
        dist = [(''999'', 1), (''2023'', 1)]) \<and>
     (\<forall>t researcher w ids total_count w1 first_ids root w2.
         researcher \<noteq> [] \<and> strip researcher \<noteq> [] \<and>
         retrieve_article_ids t (researcher @ ''[Author]'') 100 w =
           (Inr (ids, total_count), w1) \<and>
         truthy ids \<and> py_slice 10 ids = Inr first_ids \<and>
         fetch_article_metadata t first_ids w1 = (Inr root, w2) \<longrightarrow>
         get_article_statistics t researcher w =
           ([(''status'', EStr ''success''),
              (''researcher'', EStr researcher),
              (''total_publications'', EInt total_count),
              (''recent_sample_size'', EInt (int (length (process_articles root)))),
              (''top_journals'', EJournals (top_journals (process_articles root))),
              (''publication_years'', EYears (publication_years (process_articles root))),
              (''sample_titles'', ETitles (map title (take 5 (process_articles root))))], w2)) \<and>
     (\<forall>t researcher w env w' v.
         get_article_statistics t researcher w = (env, w') \<and>
         map_of env ''publication_years'' = Some v \<longrightarrow>
         (\<exists>ids total_count w1 first_ids root.
             retrieve_article_ids t (researcher @ ''[Author]'') 100 w =
               (Inr (ids, total_count), w1) \<and>
             truthy ids \<and> py_slice 10 ids = Inr first_ids \<and>
             fetch_article_metadata t first_ids w1 = (Inr root, w') \<and>
             v = EYears (publication_years (process_articles root))))"
proof -
  let ?Y = "count_names years []"
  have dist: "dist = sorted_reverse fst ?Y"
    by (simp add: dist_def years_def publication_years_def snd_tally)
  have v: "\<forall>n\<in>set years. n \<noteq> [] \<and> n \<noteq> NA"
    using observed_years_valid by (auto simp: years_def)
  have keys: "distinct (map fst ?Y)" "set (map fst ?Y) = set years"
    using keys_count_names [OF v] by simp_all
  have "sorted_wrt (\<lambda>a b. fst b \<le> fst a) dist"
    unfolding dist by (rule descending_sorted_reverse)
  moreover have "distinct (map fst dist)"
    unfolding dist using keys(1) by (simp add: distinct_map_sorted_reverse)
  ultimately have c1: "sorted_wrt (\<lambda>a b. fst b < fst a) dist"
    by (rule strictly_descending)
  then have c2: "sorted_wrt (\<lambda>a b. (fst b, fst a) \<in> lexord {(c, d). c < d}) dist"
    by (simp add: list_less_def)
  have c3: "fst ` set dist = set years"
    unfolding dist using keys(2) by (simp add: set_sorted_reverse)
  have c4: "\<forall>(y, c) \<in> set dist. c = int (count_list years y)"
    unfolding dist using count_names_entry [OF v] by (auto simp: set_sorted_reverse)
  have c5: "\<forall>y \<in> set years. y \<noteq> [] \<and> y \<noteq> ''N/A''"
    using v by (simp add: NA_def)
  have c6: "map publication_date articles = [Some ''2021'', Some ''2019'', Some ''2023''] \<longrightarrow>
        dist = [(''2023'', 1), (''2021'', 1), (''2019'', 1)]"
  proof
    assume "map publication_date articles = [Some ''2021'', Some ''2019'', Some ''2023'']"
    then have "years = [''2021'', ''2019'', ''2023'']"
      by (simp add: years_def observed_years_dates counted_def NA_def)
    then show "dist = [(''2023'', 1), (''2021'', 1), (''2019'', 1)]"
      by (simp add: dist count_names_def count_key_def NA_def sorted_reverse_def)
  qed
  have c7: "map publication_date articles = [Some ''2023'', Some ''999''] \<longrightarrow>
        dist = [(''999'', 1), (''2023'', 1)]"
  proof
    assume "map publication_date articles = [Some ''2023'', Some ''999'']"
    then have "years = [''2023'', ''999'']"
      by (simp add: years_def observed_years_dates counted_def NA_def)
    then show "dist = [(''999'', 1), (''2023'', 1)]"
      by (simp add: dist count_names_def count_key_def NA_def sorted_reverse_def)
  qed
  show ?thesis
    by (intro conjI c1 c2 c3 c4 c5 c6 c7 statistics_success_link publication_years_link)
qed

theorem publication_years_descending_witness:
  "strip ''Doe A'' \<noteq> [] \<and>
   retrieve_article_ids (library three_years) (''Doe A'' @ ''[Author]'') 100 world0 =
     (Inr (JArr [JStr ''101'', JStr ''102''], 42),
      \<lparr>sent = [(NCBI_API_BASE @ ''/esearch.fcgi'',
                 search_params (''Doe A'' @ ''[Author]'') 100)],
       slept = 0, logged = [INFO, INFO]\<rparr>) \<and>
   truthy (JArr [JStr ''101'', JStr ''102'']) \<and>
   py_slice 10 (JArr [JStr ''101'', JStr ''102'']) = Inr (JArr [JStr ''101'', JStr ''102'']) \<and>
   fetch_article_metadata (library three_years) (JArr [JStr ''101'', JStr ''102''])
     \<lparr>sent = [(NCBI_API_BASE @ ''/esearch.fcgi'',
                search_params (''Doe A'' @ ''[Author]'') 100)],
      slept = 0, logged = [INFO, INFO]\<rparr> =
     (Inr (Some three_years),
      \<lparr>sent = [(NCBI_API_BASE @ ''/esearch.fcgi'',
                 search_params (''Doe A'' @ ''[Author]'') 100),
               (NCBI_API_BASE @ ''/efetch.fcgi'', fetch_params ''101,102'')],
       slept = 0, logged = [INFO, INFO]\<rparr>) \<and>
   map publication_date (process_articles (Some three_years)) =
     [Some ''2021'', Some ''2019'', Some ''2023''] \<and>
   publication_years (process_articles (Some three_years)) =
     [(''2023'', 1), (''2021'', 1), (''2019'', 1)] \<and>
   get_article_statistics (library three_years) ''Doe A'' world0 =
     ([(''status'', EStr ''success''),
       (''researcher'', EStr ''Doe A''),
       (''total_publications'', EInt 42),
       (''recent_sample_size'', EInt 3),
       (''top_journals'', EJournals [(''J'', 2), (''K'', 1)]),
       (''publication_years'', EYears [(''2023'', 1), (''2021'', 1), (''2019'', 1)]),
       (''sample_titles'', ETitles [Some ''N/A'', Some ''N/A'', Some ''N/A''])],
      \<lparr>sent = [(NCBI_API_BASE @ ''/esearch.fcgi'',
                 search_params (''Doe A'' @ ''[Author]'') 100),
               (NCBI_API_BASE @ ''/efetch.fcgi'', fetch_params ''101,102'')],
       slept = 0, logged = [INFO, INFO]\<rparr>) \<and>
   (''2021'', 5) \<in> set (publication_years (process_articles (Some shelf))) \<and>
   count_list (observed_years (process_articles (Some shelf))) ''2021'' = 5 \<and>
   (\<exists>ids total_count w1 first_ids root.
       retrieve_article_ids (library three_years) (''Doe A'' @ ''[Author]'') 100 world0 =
         (Inr (ids, total_count), w1) \<and>
       truthy ids \<and> py_slice 10 ids = Inr first_ids \<and>
       fetch_article_metadata (library three_years) first_ids w1 =
         (Inr root,
          \<lparr>sent = [(NCBI_API_BASE @ ''/esearch.fcgi'',
                    search_params (''Doe A'' @ ''[Author]'') 100),
                  (NCBI_API_BASE @ ''/efetch.fcgi'', fetch_params ''101,102'')],
          slept = 0, logged = [INFO, INFO]\<rparr>) \<and>
       EYears [(''2023'', 1), (''2021'', 1), (''2019'', 1)] = EYears (publication_years (process_articles root)))"
proof -
  let ?ids = "JArr [JStr ''101'', JStr ''102'']"
  let ?W1 = "\<lparr>sent = [(NCBI_API_BASE @ ''/esearch.fcgi'',
                 search_params (''Doe A'' @ ''[Author]'') 100)],
       slept = 0, logged = [INFO, INFO]\<rparr>"
  let ?W2 = "\<lparr>sent = [(NCBI_API_BASE @ ''/esearch.fcgi'',
                 search_params (''Doe A'' @ ''[Author]'') 100),
               (NCBI_API_BASE @ ''/efetch.fcgi'', fetch_params ''101,102'')],
       slept = 0, logged = [INFO, INFO]\<rparr>"
  let ?sample = "process_articles (Some three_years)"
  have named: "''Doe A'' \<noteq> []" by simp
  have nonblank: "strip ''Doe A'' \<noteq> []" by (simp add: run_strip)
  have search: "retrieve_article_ids (library three_years) (''Doe A'' @ ''[Author]'') 100 world0 =
      (Inr (?ids, 42), ?W1)"
    by (rule library_search)
  have some: "truthy ?ids" by simp
  have first: "py_slice 10 ?ids = Inr ?ids" by simp
  have fetch: "fetch_article_metadata (library three_years) ?ids ?W1 =
      (Inr (Some three_years), ?W2)"
    by (rule library_fetch)
  have dates: "map publication_date ?sample = [Some ''2021'', Some ''2019'', Some ''2023'']"
    by (simp add: three_years_articles run_entries)
  have names: "journal_names ?sample = [''J'', ''J'', ''K'']"
    by (simp add: three_years_articles run_entries)
  have ranked: "top_journals ?sample = [(''J'', 2), (''K'', 1)]"
    by (simp add: run_ranking names NA_def)
  have size: "int (length ?sample) = 3"
    by (simp add: three_years_articles)
  have titles: "map title (take 5 ?sample) = [Some ''N/A'', Some ''N/A'', Some ''N/A'']"
    by (simp add: three_years_articles run_entries)
  note inst = publication_years_descending [of ?sample]
  note example = inst [THEN conjunct2, THEN conjunct2, THEN conjunct2, THEN conjunct2,
      THEN conjunct2, THEN conjunct1, rule_format]
  note link = inst [THEN conjunct2, THEN conjunct2, THEN conjunct2, THEN conjunct2,
      THEN conjunct2, THEN conjunct2, THEN conjunct2, THEN conjunct1, rule_format]
  from example [OF dates]
  have dist: "publication_years ?sample = [(''2023'', 1), (''2021'', 1), (''2019'', 1)]" .
  have "get_article_statistics (library three_years) ''Doe A'' world0 =
     ([(''status'', EStr ''success''),
       (''researcher'', EStr ''Doe A''),
       (''total_publications'', EInt 42),
       (''recent_sample_size'', EInt (int (length ?sample))),
       (''top_journals'', EJournals (top_journals ?sample)),
       (''publication_years'', EYears (publication_years ?sample)),
       (''sample_titles'', ETitles (map title (take 5 ?sample)))], ?W2)"
    using named nonblank search some first fetch by (intro link conjI)
  then have run: "get_article_statistics (library three_years) ''Doe A'' world0 =
     ([(''status'', EStr ''success''),
       (''researcher'', EStr ''Doe A''),
       (''total_publications'', EInt 42),
       (''recent_sample_size'', EInt 3),
       (''top_journals'', EJournals [(''J'', 2), (''K'', 1)]),
       (''publication_years'', EYears [(''2023'', 1), (''2021'', 1), (''2019'', 1)]),
       (''sample_titles'', ETitles [Some ''N/A'', Some ''N/A'', Some ''N/A''])],
      ?W2)"
    by (simp only: ranked dist size titles)
  let ?nine = "process_articles (Some shelf)"
  have years9: "observed_years ?nine =
      [''2021'', ''2019'', ''2023'', ''2021'', ''2021'', ''2019'', ''2021'', ''2021'']"
    by (simp add: shelf_articles run_entries)
  have dist9: "publication_years ?nine = [(''2023'', 1), (''2021'', 5), (''2019'', 2)]"
    by (simp add: run_ranking years9 NA_def)
  then have mem: "(''2021'', 5) \<in> set (publication_years ?nine)" by simp
  note counts = publication_years_descending [of ?nine, THEN conjunct2, THEN conjunct2,
      THEN conjunct2, THEN conjunct1, rule_format]
  from counts [OF mem] have "(5::int) = int (count_list (observed_years ?nine) ''2021'')"
    by simp
  then have five: "count_list (observed_years ?nine) ''2021'' = 5" by simp
  note origin = inst [THEN conjunct2, THEN conjunct2, THEN conjunct2, THEN conjunct2, THEN conjunct2, THEN conjunct2, THEN conjunct2, THEN conjunct2, rule_format]
  have key: "map_of (fst (get_article_statistics (library three_years) ''Doe A'' world0)) ''publication_years'' =
      Some (EYears [(''2023'', 1), (''2021'', 1), (''2019'', 1)])"
    by (simp add: run)
  have whole: "get_article_statistics (library three_years) ''Doe A'' world0 =
      (fst (get_article_statistics (library three_years) ''Doe A'' world0), ?W2)"
    by (simp add: run)
  from origin [OF conjI [OF whole key]]
  have traced: "\<exists>ids total_count w1 first_ids root.
         retrieve_article_ids (library three_years) (''Doe A'' @ ''[Author]'') 100 world0 =
           (Inr (ids, total_count), w1) \<and>
         truthy ids \<and> py_slice 10 ids = Inr first_ids \<and>
         fetch_article_metadata (library three_years) first_ids w1 =
           (Inr root,
            ?W2) \<and>
         EYears [(''2023'', 1), (''2021'', 1), (''2019'', 1)] = EYears (publication_years (process_articles root))" .
  show ?thesis
    by (intro conjI nonblank search some first fetch dates dist run mem five traced)
qed

end
